theory Spec2Isabelle
  imports Complex_Main "HOL-Library.Monad_Syntax"
begin

section \<open>Land Explorer: the simulation core of game.js\<close>

text \<open>
  The gameplay script keeps its whole state in globals (\<open>player\<close>, \<open>regions\<close>,
  \<open>currentRegion\<close>, \<open>gameTime\<close>, \<open>puzzlePadInteraction\<close>) and mutates them in place.
  Here every function takes the state and returns the new one. JavaScript numbers are
  modelled as real numbers: coordinates, sizes and times are exact, rounding of doubles is
  not represented, except where \<open>rectOverlapWith\<close> leaves the addition open. A property read on \<open>undefined\<close> or \<open>null\<close> throws a TypeError in the
  source; a function that can throw returns an \<open>option\<close>, and \<open>None\<close> is the throw.
\<close>

subsection \<open>Configuration constants\<close>

definition TILE :: real where "TILE = 32"
definition COLS :: real where "COLS = 30"
definition ROWS :: real where "ROWS = 18"

subsection \<open>Objects with coordinates\<close>

text \<open>
  Every object of the game carries \<open>x\<close> and \<open>y\<close>; rectangles add \<open>w\<close> and \<open>h\<close>.
  The records extend one another, so \<open>rectOverlap\<close> accepts the player, a crate or a
  gate as the source does. Pads, plates and teleporters are written \<open>{x, y}\<close> in the
  source and carry no size.
\<close>

record pos =
  xpos :: real
  ypos :: real

record rect = pos +
  width :: real
  height :: real

definition mkRect :: "real \<Rightarrow> real \<Rightarrow> real \<Rightarrow> real \<Rightarrow> rect" where
  "mkRect a b c d = \<lparr>xpos = a, ypos = b, width = c, height = d\<rparr>"

text \<open>The literal \<open>{ x: p.x, y: p.y, w: TILE, h: TILE }\<close> that the source builds around a
  pad, plate, teleporter or seed.\<close>

definition tileRect :: "'a pos_scheme \<Rightarrow> rect" where
  "tileRect p = mkRect (xpos p) (ypos p) TILE TILE"

subsection \<open>Numbers that may be NaN\<close>

text \<open>
  \<open>rectOverlap\<close> reads \<open>b.w\<close> and \<open>b.h\<close>. On an object without these fields the read
  gives \<open>undefined\<close>, \<open>b.x + undefined\<close> is NaN, and every comparison with NaN is false.
  A number that may be NaN is a \<open>real option\<close>, \<open>None\<close> being NaN.
\<close>

definition js_plus :: "real option \<Rightarrow> real option \<Rightarrow> real option" where
  "js_plus a b = (case (a, b) of (Some u, Some v) \<Rightarrow> Some (u + v) | _ \<Rightarrow> None)"

definition js_le :: "real option \<Rightarrow> real option \<Rightarrow> bool" where
  "js_le a b = (case (a, b) of (Some u, Some v) \<Rightarrow> u \<le> v | _ \<Rightarrow> False)"

definition js_ge :: "real option \<Rightarrow> real option \<Rightarrow> bool" where
  "js_ge a b = (case (a, b) of (Some u, Some v) \<Rightarrow> u \<ge> v | _ \<Rightarrow> False)"

text \<open>The four fields of an argument of \<open>rectOverlap\<close>, as the reads deliver them.\<close>

type_synonym fields = "real option \<times> real option \<times> real option \<times> real option"

definition fullFields :: "'a rect_scheme \<Rightarrow> fields" where
  "fullFields r = (Some (xpos r), Some (ypos r), Some (width r), Some (height r))"

definition bareFields :: "'a pos_scheme \<Rightarrow> fields" where
  "bareFields p = (Some (xpos p), Some (ypos p), None, None)"

subsection \<open>Utilities: clamp, Math.round, rectOverlap\<close>

definition clamp :: "real \<Rightarrow> real \<Rightarrow> real \<Rightarrow> real" where
  "clamp v a b = max a (min b v)"

text \<open>\<open>Math.round\<close> rounds to the nearest integer, a tie going up.\<close>

definition Math_round :: "real \<Rightarrow> real" where
  "Math_round v = of_int \<lfloor>v + 1 / 2\<rfloor>"

text \<open>
  \<open>return !(a.x + a.w <= b.x || a.x >= b.x + b.w || a.y + a.h <= b.y || a.y >= b.y + b.h);\<close>
\<close>

definition rectOverlapJS :: "fields \<Rightarrow> fields \<Rightarrow> bool" where
  "rectOverlapJS a b =
     (case a of (ax, ay, aw, ah) \<Rightarrow> case b of (bx, bY, bw, bh) \<Rightarrow>
        \<not> (js_le (js_plus ax aw) bx \<or> js_ge ax (js_plus bx bw)
           \<or> js_le (js_plus ay ah) bY \<or> js_ge ay (js_plus bY bh)))"

text \<open>The call on two objects that both have \<open>x, y, w, h\<close>.\<close>

definition rectOverlap :: "'a rect_scheme \<Rightarrow> 'b rect_scheme \<Rightarrow> bool" where
  "rectOverlap a b = rectOverlapJS (fullFields a) (fullFields b)"

text \<open>
  The source computes the four sums in double arithmetic, where a sum is rounded and
  \<open>x + w\<close> can come out as \<open>x\<close> for a positive \<open>w\<close>. \<open>rectOverlapWith\<close> is the same test
  with the addition as a parameter \<open>add\<close>, standing for whatever the addition computes
  on finite numbers; the exact sum is one instance.
\<close>

definition rectOverlapWith ::
  "(real \<Rightarrow> real \<Rightarrow> real) \<Rightarrow> 'a rect_scheme \<Rightarrow> 'b rect_scheme \<Rightarrow> bool" where
  "rectOverlapWith add a b =
     (\<not> (add (xpos a) (width a) \<le> xpos b \<or> xpos a \<ge> add (xpos b) (width b)
        \<or> add (ypos a) (height a) \<le> ypos b \<or> ypos a \<ge> add (ypos b) (height b)))"

text \<open>The call whose second argument is a bare \<open>{x, y}\<close> object.\<close>

definition rectOverlapBare :: "'a rect_scheme \<Rightarrow> 'b pos_scheme \<Rightarrow> bool" where
  "rectOverlapBare a p = rectOverlapJS (fullFields a) (bareFields p)"

text \<open>\<open>Array.prototype.findIndex\<close>: the index of the first element satisfying the test,
  \<open>-1\<close> when there is none. \<open>find\<close> is modelled by the same index, the object found being
  the element at it.\<close>

fun findIndexFrom :: "('a \<Rightarrow> bool) \<Rightarrow> 'a list \<Rightarrow> int \<Rightarrow> int" where
  "findIndexFrom P [] i = -1"
| "findIndexFrom P (a # as) i = (if P a then i else findIndexFrom P as (i + 1))"

definition findIndex :: "('a \<Rightarrow> bool) \<Rightarrow> 'a list \<Rightarrow> int" where
  "findIndex P as = findIndexFrom P as 0"

text \<open>An array read \<open>xs[i]\<close>: \<open>undefined\<close> outside the array.\<close>

definition arrayAt :: "'a list \<Rightarrow> int \<Rightarrow> 'a option" where
  "arrayAt as i = (if 0 \<le> i \<and> i < int (length as) then Some (as ! nat i) else None)"

subsection \<open>Game objects\<close>

record seed = pos +
  collected :: bool

record plate = pos +
  isPressed :: bool

record teleporter = pos +
  active :: bool

record gateObj = rect +
  closed :: bool

record playerObj = rect +
  speed :: real

text \<open>The entry of the process-wide table \<open>puzzlePadInteraction\<close>.\<close>

record interaction =
  enteredCorrectPad :: bool
  lastHitIndex :: int

type_synonym padTable = "string \<Rightarrow> interaction option"

text \<open>Calls that leave the simulation: sounds, persistence requests, HUD refresh.\<close>

datatype effect =
    PuzzleClear | Interact | Reset | SaveGame | FadeToRegion nat | UpdateSeedCounter
  | SubmitScore real

subsection \<open>Puzzle factories\<close>

text \<open>
  Each factory returns an object with \<open>solved\<close>, \<open>update\<close>, \<open>blocksExit\<close>, \<open>getState\<close>
  and \<open>setState\<close>. The object's own fields are the arguments of the constructor:
  \<open>solved\<close> and \<open>platesData\<close>; \<open>solved\<close>, \<open>index\<close>, the \<open>pads\<close> of the closure and the
  key \<open>padKey\<close>; \<open>solved\<close>; \<open>solved\<close> and \<open>teleporterData\<close>.
\<close>

datatype puzzle =
    DynamicPlatePuzzle bool "plate list"
  | StrictSequencePuzzle bool int "pos list" string
  | CratePuzzle bool
  | TeleporterPuzzle bool "teleporter list"

fun solved :: "puzzle \<Rightarrow> bool" where
  "solved (DynamicPlatePuzzle sv ps) = sv"
| "solved (StrictSequencePuzzle sv ix pads k) = sv"
| "solved (CratePuzzle sv) = sv"
| "solved (TeleporterPuzzle sv ts) = sv"

definition blocksExit :: "puzzle \<Rightarrow> bool" where
  "blocksExit p = (\<not> solved p)"

definition createDynamicPlatePuzzle :: "pos list \<Rightarrow> puzzle" where
  "createDynamicPlatePuzzle plates =
     DynamicPlatePuzzle False
       (map (\<lambda>p. \<lparr>xpos = xpos p, ypos = ypos p, isPressed = False\<rparr>) plates)"

text \<open>The factory creates the table entry only when there is none under the key.\<close>

definition createStrictSequencePuzzle :: "pos list \<Rightarrow> string \<Rightarrow> padTable \<Rightarrow> puzzle \<times> padTable" where
  "createStrictSequencePuzzle pads padKey tbl =
     (StrictSequencePuzzle False 0 pads padKey,
      (case tbl padKey of
         None \<Rightarrow> tbl(padKey \<mapsto> \<lparr>enteredCorrectPad = False, lastHitIndex = -1\<rparr>)
       | Some e \<Rightarrow> tbl))"

definition createCratePuzzle :: puzzle where
  "createCratePuzzle = CratePuzzle False"

definition createTeleporterPuzzle :: "pos list \<Rightarrow> puzzle" where
  "createTeleporterPuzzle teleporters =
     TeleporterPuzzle False
       (map (\<lambda>t. \<lparr>xpos = xpos t, ypos = ypos t, active = False\<rparr>) teleporters)"

subsection \<open>Puzzle updates\<close>

text \<open>
  The closures read the global \<open>player\<close> and the crates and targets of the region the
  puzzle was created for; they are arguments here. An update returns the puzzle, the
  table and the sounds it asked for.
\<close>

definition checkPressed :: "playerObj \<Rightarrow> rect list \<Rightarrow> plate \<Rightarrow> bool" where
  "checkPressed pl crs p =
     (if rectOverlap pl (tileRect p) then True
      else list_ex (\<lambda>c. rectOverlap c (tileRect p)) crs)"

definition DynamicPlate_update ::
  "playerObj \<Rightarrow> rect list \<Rightarrow> bool \<Rightarrow> plate list \<Rightarrow> puzzle \<times> effect list" where
  "DynamicPlate_update pl crs sv platesData =
     (if sv then (DynamicPlatePuzzle sv platesData, [])
      else
        let platesData' = map (\<lambda>p. p\<lparr>isPressed := checkPressed pl crs p\<rparr>) platesData;
            allPressed = list_all isPressed platesData'
        in if allPressed then (DynamicPlatePuzzle True platesData', [PuzzleClear])
           else (DynamicPlatePuzzle sv platesData', []))"

text \<open>
  \<open>playerRect\<close> is built with \<open>w: TILE, h: TILE\<close>, not the player's own size. The pad to
  exit is read from \<open>pads\<close> as it is, a bare \<open>{x, y}\<close>, and handed to \<open>rectOverlap\<close>.
  Without an entry in the table the first use of \<open>interactionState\<close> throws.
\<close>

definition StrictSequence_update ::
  "playerObj \<Rightarrow> padTable \<Rightarrow> bool \<Rightarrow> int \<Rightarrow> pos list \<Rightarrow> string
     \<Rightarrow> (puzzle \<times> padTable \<times> effect list) option" where
  "StrictSequence_update pl tbl sv ix pads padKey =
     (if sv then Some (StrictSequencePuzzle sv ix pads padKey, tbl, [])
      else case tbl padKey of
        None \<Rightarrow> None
      | Some interactionState \<Rightarrow>
          let playerRect = mkRect (xpos pl) (ypos pl) TILE TILE;
              touchedPadIndex = findIndex (\<lambda>p. rectOverlap playerRect (tileRect p)) pads;
              isTouchingAPad = (touchedPadIndex \<noteq> -1);
              isTouchingCurrentTarget = (touchedPadIndex = ix)
          in
            if isTouchingAPad \<and> \<not> isTouchingCurrentTarget \<and> (ix > 0 \<or> touchedPadIndex \<noteq> -1) then
              Some (StrictSequencePuzzle sv 0 pads padKey,
                    tbl(padKey \<mapsto> \<lparr>enteredCorrectPad = False, lastHitIndex = -1\<rparr>),
                    [Reset])
            else if isTouchingCurrentTarget then
              Some (StrictSequencePuzzle sv ix pads padKey,
                    tbl(padKey \<mapsto> \<lparr>enteredCorrectPad = True, lastHitIndex = ix\<rparr>),
                    [])
            else
              let padToExit = arrayAt pads (lastHitIndex interactionState);
                  isStillTouchingLastHitPad =
                    (case padToExit of None \<Rightarrow> False
                     | Some p \<Rightarrow> rectOverlapBare playerRect p)
              in
                if enteredCorrectPad interactionState \<and> \<not> isStillTouchingLastHitPad then
                  let ix' = ix + 1;
                      tbl' = tbl(padKey \<mapsto> \<lparr>enteredCorrectPad = False, lastHitIndex = -1\<rparr>)
                  in if ix' \<ge> int (length pads)
                     then Some (StrictSequencePuzzle True ix' pads padKey, tbl', [Interact, PuzzleClear])
                     else Some (StrictSequencePuzzle sv ix' pads padKey, tbl', [Interact])
                else Some (StrictSequencePuzzle sv ix pads padKey, tbl, []))"

definition isSolved :: "rect list \<Rightarrow> rect list \<Rightarrow> bool" where
  "isSolved crs tgs =
     (if length crs \<noteq> length tgs then False
      else list_all (\<lambda>c. list_ex (\<lambda>t. rectOverlap c t) tgs) crs)"

definition Crate_update :: "rect list \<Rightarrow> rect list \<Rightarrow> bool \<Rightarrow> puzzle \<times> effect list" where
  "Crate_update crs tgs sv =
     (if sv then (CratePuzzle sv, [])
      else
        let nowSolved = isSolved crs tgs
        in if nowSolved then (CratePuzzle True, [PuzzleClear]) else (CratePuzzle sv, []))"

definition Teleporter_update ::
  "playerObj \<Rightarrow> bool \<Rightarrow> bool \<Rightarrow> teleporter list \<Rightarrow> puzzle \<times> effect list" where
  "Teleporter_update pl interactionKey sv teleporterData =
     (if sv then (TeleporterPuzzle sv teleporterData, [])
      else
        let hit = (\<lambda>t. rectOverlap pl (tileRect t));
            teleporterData' =
              (if interactionKey
               then map (\<lambda>t. if hit t then t\<lparr>active := \<not> active t\<rparr> else t) teleporterData
               else teleporterData);
            interacted = (interactionKey \<and> list_ex hit teleporterData);
            fx = (if interacted then [Interact] else [])
        in if list_all active teleporterData'
           then (TeleporterPuzzle True teleporterData', fx @ [PuzzleClear])
           else (TeleporterPuzzle sv teleporterData', fx))"

text \<open>\<open>p.update(player, interaction)\<close> on whichever puzzle the region holds.\<close>

fun update ::
  "playerObj \<Rightarrow> bool \<Rightarrow> rect list \<Rightarrow> rect list \<Rightarrow> padTable \<Rightarrow> puzzle
     \<Rightarrow> (puzzle \<times> padTable \<times> effect list) option" where
  "update pl key crs tgs tbl (DynamicPlatePuzzle sv ps) =
     (case DynamicPlate_update pl crs sv ps of (p, fx) \<Rightarrow> Some (p, tbl, fx))"
| "update pl key crs tgs tbl (StrictSequencePuzzle sv ix pads k) =
     StrictSequence_update pl tbl sv ix pads k"
| "update pl key crs tgs tbl (CratePuzzle sv) =
     (case Crate_update crs tgs sv of (p, fx) \<Rightarrow> Some (p, tbl, fx))"
| "update pl key crs tgs tbl (TeleporterPuzzle sv ts) =
     (case Teleporter_update pl key sv ts of (p, fx) \<Rightarrow> Some (p, tbl, fx))"

subsection \<open>Puzzle snapshots\<close>

text \<open>
  The object \<open>getState\<close> returns and \<open>setState\<close> reads. A field that is missing reads as
  \<open>undefined\<close> and is \<open>None\<close>; \<open>!!v\<close> on a present field is the boolean stored here.
\<close>

record puzzleState =
  st_solved :: "bool option"
  st_index :: "int option"
  st_enteredCorrectPad :: "bool option"
  st_lastHitIndex :: "int option"
  st_activeStates :: "bool list option"

definition truthy :: "bool option \<Rightarrow> bool" where
  "truthy v = (case v of None \<Rightarrow> False | Some b \<Rightarrow> b)"



text \<open>\<open>activeStates.forEach((a, i) => { if (teleporterData[i]) teleporterData[i].active = !!a })\<close>:
  positional, the shorter of the two arrays decides how far it goes.\<close>

fun restoreActive :: "bool list \<Rightarrow> teleporter list \<Rightarrow> teleporter list" where
  "restoreActive (a # as) (t # ts) = t\<lparr>active := a\<rparr> # restoreActive as ts"
| "restoreActive as ts = ts"

text \<open>The teleporter puzzle stores \<open>state.solved\<close> uncoerced; a missing field leaves
  \<open>undefined\<close>, which every later test treats as false.\<close>

fun setState :: "puzzleState \<Rightarrow> padTable \<Rightarrow> puzzle \<Rightarrow> puzzle \<times> padTable" where
  "setState st tbl (DynamicPlatePuzzle sv ps) =
     (DynamicPlatePuzzle (truthy (st_solved st)) ps, tbl)"
| "setState st tbl (StrictSequencePuzzle sv ix pads k) =
     (StrictSequencePuzzle (truthy (st_solved st))
        (case st_index st of Some i \<Rightarrow> i | None \<Rightarrow> 0) pads k,
      (case tbl k of
         None \<Rightarrow> tbl
       | Some e \<Rightarrow>
           tbl(k \<mapsto> \<lparr>enteredCorrectPad = truthy (st_enteredCorrectPad st),
                     lastHitIndex = (case st_lastHitIndex st of Some i \<Rightarrow> i | None \<Rightarrow> -1)\<rparr>)))"
| "setState st tbl (CratePuzzle sv) = (CratePuzzle (truthy (st_solved st)), tbl)"
| "setState st tbl (TeleporterPuzzle sv ts) =
     (TeleporterPuzzle (truthy (st_solved st))
        (case st_activeStates st of None \<Rightarrow> ts | Some as \<Rightarrow> restoreActive as ts),
      tbl)"


fun platesData :: "puzzle \<Rightarrow> plate list" where
  "platesData (DynamicPlatePuzzle sv ps) = ps"
| "platesData p = []"


subsection \<open>Regions and the global state\<close>

text \<open>Crates are \<open>{x, y, w, h, color}\<close>; the colour is only drawn and is left out, as are
  the name and the music of a region and the pulse of a seed.\<close>

record region =
  rid :: nat
  cols :: real
  rows :: real
  seeds :: "seed list"
  obstacles :: "rect list"
  crates :: "rect list"
  targets :: "rect list"
  puzzle :: "puzzle option"
  gate :: "gateObj option"

record state =
  regions :: "region list"
  currentRegion :: nat
  player :: playerObj
  gameTime :: real
  flashTimer :: real
  paused :: bool
  interactionPending :: bool
  puzzlePadInteraction :: padTable
  effects :: "effect list"

text \<open>\<open>regions[i]\<close>: \<open>undefined\<close> outside the array.\<close>

definition regionAt :: "state \<Rightarrow> nat \<Rightarrow> region option" where
  "regionAt s i = (if i < length (regions s) then Some (regions s ! i) else None)"

text \<open>The adjacency table, each row \<open>[up, right, down, left]\<close>.\<close>

definition regionEdges :: "nat option list list" where
  "regionEdges =
     [[None, Some 1, None, None],
      [None, Some 2, None, Some 0],
      [None, Some 3, None, Some 1],
      [None, Some 4, None, Some 2],
      [None, None, None, Some 3]]"

text \<open>\<open>regionEdges[currentRegion][k]\<close> for \<open>k\<close> from 0 to 3: \<open>None\<close> when the row is
  \<open>undefined\<close> and the read throws, \<open>Some None\<close> for \<open>null\<close>.\<close>

definition edgeOf :: "nat \<Rightarrow> nat \<Rightarrow> nat option option" where
  "edgeOf cur k = (if cur < length regionEdges then Some (regionEdges ! cur ! k) else None)"

definition monument :: rect where
  "monument = mkRect (of_int \<lfloor>COLS / 2\<rfloor> * TILE) (of_int \<lfloor>ROWS / 2\<rfloor> * TILE) TILE TILE"

subsection \<open>Collision and movement\<close>

text \<open>\<open>excludeCrate\<close> is compared by identity in the source; here it is the index of
  the crate in the region's array.\<close>

definition canRectMoveTo :: "rect \<Rightarrow> region \<Rightarrow> int \<Rightarrow> bool" where
  "canRectMoveTo rc r excludeCrate =
     (if xpos rc < 0 \<or> ypos rc < 0 \<or> xpos rc + width rc > cols r * TILE
         \<or> ypos rc + height rc > rows r * TILE then False
      else if list_ex (\<lambda>ob. rectOverlap rc ob) (obstacles r) then False
      else if list_ex (\<lambda>i. int i \<noteq> excludeCrate \<and> rectOverlap rc (crates r ! i))
                [0..<length (crates r)] then False
      else True)"

definition canPlayerMoveTo :: "real \<Rightarrow> real \<Rightarrow> playerObj \<Rightarrow> region \<Rightarrow> bool" where
  "canPlayerMoveTo nx ny pl r =
     (let rc = mkRect nx ny (width pl) (height pl)
      in if list_ex (\<lambda>ob. rectOverlap rc ob) (obstacles r) then False
         else if (case gate r of None \<Rightarrow> False | Some g \<Rightarrow> closed g \<and> rectOverlap rc g) then False
         else if nx < - TILE \<or> ny < - TILE \<or> nx + width pl > cols r * TILE + TILE
                 \<or> ny + height pl > rows r * TILE + TILE then False
         else True)"

text \<open>The block "Attempt to move horizontally": the region with the crate moved, if one
  was pushed, and \<open>newPlayerX\<close>.\<close>

definition moveHorizontally :: "real \<Rightarrow> playerObj \<Rightarrow> region \<Rightarrow> region \<times> real" where
  "moveHorizontally dx pl r =
     (let nx = xpos pl + dx;
          attemptedRect = mkRect nx (ypos pl) (width pl) (height pl);
          ci = findIndex (\<lambda>c. rectOverlap attemptedRect c) (crates r)
      in if ci \<noteq> -1 then
           let collidedCrate = crates r ! nat ci;
               ncx = xpos collidedCrate + dx;
               ncy = ypos collidedCrate;
               nextCrateRect = mkRect ncx ncy (width collidedCrate) (height collidedCrate)
           in if canRectMoveTo nextCrateRect r ci
              then (r\<lparr>crates := (crates r)[nat ci := collidedCrate\<lparr>xpos := ncx\<rparr>]\<rparr>, nx)
              else (r, xpos pl)
         else if canPlayerMoveTo nx (ypos pl) pl r then (r, nx)
         else (r, xpos pl))"

text \<open>The block "Attempt to move vertically", at the x the first block decided.\<close>

definition moveVertically :: "real \<Rightarrow> real \<Rightarrow> playerObj \<Rightarrow> region \<Rightarrow> region \<times> real" where
  "moveVertically dy newPlayerX pl r =
     (let ny = ypos pl + dy;
          attemptedRect = mkRect newPlayerX ny (width pl) (height pl);
          ci = findIndex (\<lambda>c. rectOverlap attemptedRect c) (crates r)
      in if ci \<noteq> -1 then
           let collidedCrate = crates r ! nat ci;
               ncx = xpos collidedCrate;
               ncy = ypos collidedCrate + dy;
               nextCrateRect = mkRect ncx ncy (width collidedCrate) (height collidedCrate)
           in if canRectMoveTo nextCrateRect r ci
              then (r\<lparr>crates := (crates r)[nat ci := collidedCrate\<lparr>ypos := ncy\<rparr>]\<rparr>, ny)
              else (r, ypos pl)
         else if canPlayerMoveTo newPlayerX ny pl r then (r, ny)
         else (r, ypos pl))"

text \<open>\<open>regions[currentRegion]\<close> is only read from when one of the two blocks runs.\<close>

definition movePlayer :: "real \<Rightarrow> real \<Rightarrow> state \<Rightarrow> state option" where
  "movePlayer dx dy s =
     (if dx = 0 \<and> dy = 0 then Some s
      else case regionAt s (currentRegion s) of
        None \<Rightarrow> None
      | Some r \<Rightarrow>
          let pl = player s;
              (r1, newPlayerX) = (if dx \<noteq> 0 then moveHorizontally dx pl r else (r, xpos pl));
              (r2, newPlayerY) = (if dy \<noteq> 0 then moveVertically dy newPlayerX pl r1
                                  else (r1, ypos pl))
          in Some (s\<lparr>regions := (regions s)[currentRegion s := r2],
                     player := pl\<lparr>xpos := newPlayerX, ypos := newPlayerY\<rparr>\<rparr>))"

subsection \<open>Region transition\<close>

text \<open>
  \<open>region\<close> is read once, before the four tests, and stays the region the player was in
  even after \<open>currentRegion\<close> has changed. Each test works on the state the one before
  left, together with the flag \<open>moved\<close>.
\<close>

definition rightEdge :: "region \<Rightarrow> state \<times> bool \<Rightarrow> (state \<times> bool) option" where
  "rightEdge rg sm =
     (case sm of (s, moved) \<Rightarrow>
        let pl = player s
        in if xpos pl + width pl > cols rg * TILE then
             (case edgeOf (currentRegion s) 1 of
                None \<Rightarrow> None
              | Some None \<Rightarrow> Some (s\<lparr>player := pl\<lparr>xpos := cols rg * TILE - width pl\<rparr>\<rparr>, moved)
              | Some (Some nxt) \<Rightarrow>
                  (case regionAt s nxt of
                     None \<Rightarrow> None
                   | Some nr \<Rightarrow>
                       let relY = ypos pl / (rows rg * TILE)
                       in Some (s\<lparr>currentRegion := nxt,
                                  player := pl\<lparr>xpos := 2,
                                    ypos := clamp (Math_round (relY * rows nr * TILE)) 2
                                              (rows nr * TILE - height pl - 2)\<rparr>\<rparr>, True)))
           else Some (s, moved))"

definition leftEdge :: "region \<Rightarrow> state \<times> bool \<Rightarrow> (state \<times> bool) option" where
  "leftEdge rg sm =
     (case sm of (s, moved) \<Rightarrow>
        let pl = player s
        in if xpos pl < 0 then
             (case edgeOf (currentRegion s) 3 of
                None \<Rightarrow> None
              | Some None \<Rightarrow> Some (s\<lparr>player := pl\<lparr>xpos := 0\<rparr>\<rparr>, moved)
              | Some (Some nxt) \<Rightarrow>
                  (case regionAt s nxt of
                     None \<Rightarrow> None
                   | Some nr \<Rightarrow>
                       let relY = ypos pl / (rows rg * TILE)
                       in Some (s\<lparr>currentRegion := nxt,
                                  player := pl\<lparr>xpos := cols nr * TILE - width pl - 2,
                                    ypos := clamp (Math_round (relY * rows nr * TILE)) 2
                                              (rows nr * TILE - height pl - 2)\<rparr>\<rparr>, True)))
           else Some (s, moved))"

definition topEdge :: "region \<Rightarrow> state \<times> bool \<Rightarrow> (state \<times> bool) option" where
  "topEdge rg sm =
     (case sm of (s, moved) \<Rightarrow>
        let pl = player s
        in if ypos pl < 0 then
             (case edgeOf (currentRegion s) 0 of
                None \<Rightarrow> None
              | Some None \<Rightarrow> Some (s\<lparr>player := pl\<lparr>ypos := 0\<rparr>\<rparr>, moved)
              | Some (Some nxt) \<Rightarrow>
                  (case regionAt s nxt of
                     None \<Rightarrow> None
                   | Some nr \<Rightarrow>
                       let relX = xpos pl / (cols rg * TILE)
                       in Some (s\<lparr>currentRegion := nxt,
                                  player := pl\<lparr>ypos := rows nr * TILE - height pl - 2,
                                    xpos := clamp (Math_round (relX * cols nr * TILE)) 2
                                              (cols nr * TILE - width pl - 2)\<rparr>\<rparr>, True)))
           else Some (s, moved))"

definition bottomEdge :: "region \<Rightarrow> state \<times> bool \<Rightarrow> (state \<times> bool) option" where
  "bottomEdge rg sm =
     (case sm of (s, moved) \<Rightarrow>
        let pl = player s
        in if ypos pl + height pl > rows rg * TILE then
             (case edgeOf (currentRegion s) 2 of
                None \<Rightarrow> None
              | Some None \<Rightarrow> Some (s\<lparr>player := pl\<lparr>ypos := rows rg * TILE - height pl\<rparr>\<rparr>, moved)
              | Some (Some nxt) \<Rightarrow>
                  (case regionAt s nxt of
                     None \<Rightarrow> None
                   | Some nr \<Rightarrow>
                       let relX = xpos pl / (cols rg * TILE)
                       in Some (s\<lparr>currentRegion := nxt,
                                  player := pl\<lparr>ypos := 2,
                                    xpos := clamp (Math_round (relX * cols nr * TILE)) 2
                                              (cols nr * TILE - width pl - 2)\<rparr>\<rparr>, True)))
           else Some (s, moved))"

definition checkRegionSwitch :: "state \<Rightarrow> state option" where
  "checkRegionSwitch s =
     (case regionAt s (currentRegion s) of
        None \<Rightarrow> None
      | Some rg \<Rightarrow>
          do {
            sm1 \<leftarrow> rightEdge rg (s, False);
            sm2 \<leftarrow> leftEdge rg sm1;
            sm3 \<leftarrow> topEdge rg sm2;
            sm4 \<leftarrow> bottomEdge rg sm3;
            Some (if snd sm4
                  then (fst sm4)\<lparr>effects := effects (fst sm4)
                           @ [FadeToRegion (currentRegion (fst sm4)), SaveGame, UpdateSeedCounter]\<rparr>
                  else fst sm4)
          })"

subsection \<open>The tick\<close>

text \<open>\<open>updateSeeds\<close>: every uncollected seed of the current region the player overlaps is
  collected, the flash starts, and a save is requested for each. The seed sound, played
  only once audio is unlocked, is left out.\<close>

fun collectSeeds :: "playerObj \<Rightarrow> seed list \<Rightarrow> seed list \<times> nat" where
  "collectSeeds pl [] = ([], 0)"
| "collectSeeds pl (sd # sds) =
     (case collectSeeds pl sds of (sds', n) \<Rightarrow>
        if collected sd then (sd # sds', n)
        else if rectOverlap pl (tileRect sd) then (sd\<lparr>collected := True\<rparr> # sds', Suc n)
        else (sd # sds', n))"

definition updateSeeds :: "state \<Rightarrow> state option" where
  "updateSeeds s =
     (case regionAt s (currentRegion s) of
        None \<Rightarrow> None
      | Some r \<Rightarrow>
          (case collectSeeds (player s) (seeds r) of (sds, n) \<Rightarrow>
             Some (s\<lparr>regions := (regions s)[currentRegion s := r\<lparr>seeds := sds\<rparr>],
                     flashTimer := (if n > 0 then 18 else flashTimer s),
                     effects := effects s @ concat (replicate n [SaveGame, UpdateSeedCounter])\<rparr>)))"

text \<open>\<open>updatePuzzle\<close>: \<open>held\<close> is \<open>keys[INTERACT_KEY] || keys['enter']\<close>. The gate of the
  region follows the puzzle after the update.\<close>

definition updatePuzzle :: "bool \<Rightarrow> state \<Rightarrow> state option" where
  "updatePuzzle held s =
     (case regionAt s (currentRegion s) of
        None \<Rightarrow> None
      | Some r \<Rightarrow>
          (case puzzle r of
             None \<Rightarrow> Some s
           | Some p \<Rightarrow>
               let interaction = (held \<and> \<not> interactionPending s);
                   pending = (if held then True else False)
               in (case update (player s) interaction (crates r) (targets r)
                          (puzzlePadInteraction s) p of
                     None \<Rightarrow> None
                   | Some (p', tbl, fx) \<Rightarrow>
                       Some (s\<lparr>regions := (regions s)[currentRegion s :=
                                  r\<lparr>puzzle := Some p',
                                    gate := map_option (\<lambda>g. g\<lparr>closed := blocksExit p'\<rparr>) (gate r)\<rparr>],
                               interactionPending := pending,
                               puzzlePadInteraction := tbl,
                               effects := effects s @ fx\<rparr>))))"

definition checkWinCondition :: "state \<Rightarrow> state" where
  "checkWinCondition s =
     (let allCollected = list_all (\<lambda>r. list_all collected (seeds r)) (regions s)
      in if \<not> allCollected then s
         else if currentRegion s \<noteq> 4 then s
         else if rectOverlap (player s) monument
              then s\<lparr>paused := True, effects := effects s @ [SubmitScore (gameTime s)]\<rparr>
         else s)"

text \<open>The body of \<open>loop\<close> that runs when the game is not paused, for a movement
  \<open>(dx, dy)\<close> already derived from the keys, and a frame time \<open>dt\<close>. Drawing is left out.\<close>

definition loop :: "real \<Rightarrow> real \<Rightarrow> bool \<Rightarrow> real \<Rightarrow> state \<Rightarrow> state option" where
  "loop dx dy held dt s =
     (if paused s then Some s
      else do {
        s1 \<leftarrow> movePlayer dx dy s;
        s2 \<leftarrow> updateSeeds (s1\<lparr>gameTime := gameTime s1 + dt\<rparr>);
        s3 \<leftarrow> updatePuzzle held s2;
        s4 \<leftarrow> checkRegionSwitch s3;
        Some (checkWinCondition s4)
      })"

subsection \<open>Content generation\<close>

definition xy :: "real \<Rightarrow> real \<Rightarrow> pos" where
  "xy a b = \<lparr>xpos = a, ypos = b\<rparr>"

definition newSeed :: "real \<Rightarrow> real \<Rightarrow> seed" where
  "newSeed a b = \<lparr>xpos = a, ypos = b, collected = False\<rparr>"

text \<open>The key the sequence puzzle is created under, \<open>strict_sequence_\<close> followed by the
  \<open>id\<close>: the call passes no \<open>id\<close>, which prints as \<open>undefined\<close>.\<close>

definition padKey0 :: string where
  "padKey0 = ''strict_sequence_undefined''"

definition newGate :: "region \<Rightarrow> gateObj" where
  "newGate r =
     \<lparr>xpos = cols r * TILE - 8, ypos = 0, width = 16, height = rows r * TILE,
      closed = (case puzzle r of None \<Rightarrow> False | Some p \<Rightarrow> blocksExit p)\<rparr>"

text \<open>\<open>regions\<close> is a constant array of five objects; with fewer the first write to a
  missing one throws. The gate of region 4 is not touched.\<close>

definition generateContent :: "state \<Rightarrow> state option" where
  "generateContent s =
     (if length (regions s) < 5 then None
      else
        let rs = map (\<lambda>r. r\<lparr>seeds := [], obstacles := [], crates := [], targets := [],
                              puzzle := None\<rparr>) (regions s);
            seq = createStrictSequencePuzzle
                    [xy (25 * TILE) (8 * TILE), xy (26 * TILE) (8 * TILE), xy (27 * TILE) (8 * TILE)]
                    padKey0 (puzzlePadInteraction s);
            rs = rs[0 := (rs ! 0)\<lparr>
                   seeds := [newSeed (10 * TILE) (6 * TILE)],
                   obstacles := [mkRect (12 * TILE) (7 * TILE) TILE TILE],
                   crates := [mkRect (6 * TILE) (6 * TILE) TILE TILE],
                   puzzle := Some (createDynamicPlatePuzzle
                                     [xy (4 * TILE) (5 * TILE), xy (8 * TILE) (5 * TILE)])\<rparr>];
            rs = rs[1 := (rs ! 1)\<lparr>
                   seeds := [newSeed (24 * TILE) (9 * TILE)],
                   obstacles := [mkRect (22 * TILE) (5 * TILE) (TILE * 2) TILE,
                                 mkRect (27 * TILE) (12 * TILE) (TILE * 2) TILE],
                   puzzle := Some (fst seq)\<rparr>];
            rs = rs[2 := (rs ! 2)\<lparr>
                   seeds := [newSeed (8 * TILE) (4 * TILE)],
                   obstacles := [mkRect (15 * TILE) (6 * TILE) (TILE * 2) (TILE * 2),
                                 mkRect (20 * TILE) (3 * TILE) (TILE * 3) TILE,
                                 mkRect (20 * TILE) (14 * TILE) (TILE * 3) TILE],
                   targets := [mkRect (6 * TILE) (6 * TILE) TILE TILE,
                               mkRect (24 * TILE) (12 * TILE) TILE TILE],
                   crates := [mkRect (12 * TILE) (4 * TILE) TILE TILE,
                              mkRect (12 * TILE) (12 * TILE) TILE TILE],
                   puzzle := Some createCratePuzzle\<rparr>];
            rs = rs[3 := (rs ! 3)\<lparr>
                   seeds := [newSeed (12 * TILE) (8 * TILE), newSeed (18 * TILE) (10 * TILE)],
                   obstacles := [mkRect (26 * TILE) (7 * TILE) (TILE * 3) TILE,
                                 mkRect (5 * TILE) (10 * TILE) (TILE * 2) (TILE * 2)],
                   puzzle := Some (createTeleporterPuzzle
                                     [xy (22 * TILE) (4 * TILE), xy (8 * TILE) (14 * TILE)])\<rparr>];
            rs = rs[4 := (rs ! 4)\<lparr>
                   seeds := [],
                   obstacles := [mkRect (8 * TILE) (10 * TILE) (TILE * 2) (TILE * 2)]\<rparr>];
            rs = map (\<lambda>i. if i \<le> 3 then (rs ! i)\<lparr>gate := Some (newGate (rs ! i))\<rparr> else rs ! i)
                   [0..<length rs]
        in Some (s\<lparr>regions := rs, puzzlePadInteraction := snd seq\<rparr>))"

text \<open>The globals as the script declares them, before \<open>initGame\<close> runs.\<close>

definition emptyRegion :: "nat \<Rightarrow> region" where
  "emptyRegion i = \<lparr>rid = i, cols = COLS, rows = ROWS, seeds = [], obstacles = [], crates = [],
                    targets = [], puzzle = None, gate = None\<rparr>"

definition initialState :: state where
  "initialState =
     \<lparr>regions = map emptyRegion [0..<5], currentRegion = 0,
      player = \<lparr>xpos = TILE * 3, ypos = TILE * 3, width = 24, height = 24, speed = 3\<rparr>,
      gameTime = 0, flashTimer = 0, paused = False, interactionPending = False,
      puzzlePadInteraction = Map.empty, effects = []\<rparr>"

subsection \<open>Loading a save\<close>

text \<open>
  The row \<open>load.php\<close> returns holds \<open>seeds\<close>, \<open>crates\<close> and \<open>puzzles\<close> as JSON text. A
  field is not a string, or a string \<open>JSON.parse\<close> rejects, or a parsed value. A parsed
  value that is not an array has no \<open>forEach\<close>, so the call throws: it is \<open>None\<close> at the
  place of the array. A crate position or a puzzle state that is \<open>null\<close> is \<open>None\<close> too.
  Numbers and flags inside are taken as already converted.
\<close>

datatype 'a field = NotAString | Unparsable | Parsed 'a

record snapshot =
  player_name :: "string option"
  region_id :: nat
  pos_x :: real
  pos_y :: real
  game_time :: real
  seeds_json :: "bool list option list option field"
  crates_json :: "(real \<times> real) option list option list option field"
  puzzles_json :: "puzzleState option list option field"

text \<open>What \<open>fetch\<close> and \<open>response.json()\<close> deliver: a failure, \<open>null\<close>, or a row.\<close>

datatype response = FetchFailed | NoSave | Row snapshot

text \<open>The three restore loops. Each returns whether it ran to its end; what it wrote
  before a throw stays written.\<close>

fun restoreFlags :: "bool list \<Rightarrow> seed list \<Rightarrow> seed list" where
  "restoreFlags (c # cs) (sd # sds) = sd\<lparr>collected := c\<rparr> # restoreFlags cs sds"
| "restoreFlags cs sds = sds"

fun restoreSeeds :: "bool list option list \<Rightarrow> region list \<Rightarrow> bool \<times> region list" where
  "restoreSeeds [] rs = (True, rs)"
| "restoreSeeds (None # arrs) rs = (False, rs)"
| "restoreSeeds (Some arr # arrs) [] = restoreSeeds arrs []"
| "restoreSeeds (Some arr # arrs) (r # rs) =
     (case restoreSeeds arrs rs of (ok, rs') \<Rightarrow>
        (ok, r\<lparr>seeds := restoreFlags arr (seeds r)\<rparr> # rs'))"

text \<open>\<open>pos.x\<close> is read only where the region has a crate at that index.\<close>

fun restoreCrateRow :: "(real \<times> real) option list \<Rightarrow> rect list \<Rightarrow> bool \<times> rect list" where
  "restoreCrateRow [] cs = (True, cs)"
| "restoreCrateRow (p # ps) [] = (True, [])"
| "restoreCrateRow (None # ps) (c # cs) = (False, c # cs)"
| "restoreCrateRow (Some (a, b) # ps) (c # cs) =
     (case restoreCrateRow ps cs of (ok, cs') \<Rightarrow> (ok, c\<lparr>xpos := a, ypos := b\<rparr> # cs'))"

fun restoreCrates ::
  "(real \<times> real) option list option list \<Rightarrow> region list \<Rightarrow> bool \<times> region list" where
  "restoreCrates [] rs = (True, rs)"
| "restoreCrates (None # arrs) rs = (False, rs)"
| "restoreCrates (Some arr # arrs) [] = restoreCrates arrs []"
| "restoreCrates (Some arr # arrs) (r # rs) =
     (case restoreCrateRow arr (crates r) of (ok, cs) \<Rightarrow>
        if ok then (case restoreCrates arrs rs of (ok', rs') \<Rightarrow> (ok', r\<lparr>crates := cs\<rparr> # rs'))
        else (False, r\<lparr>crates := cs\<rparr> # rs))"

text \<open>Every puzzle object has \<open>setState\<close>, so the second branch of the source is never
  taken. \<open>setState(null)\<close> throws at its first read.\<close>

fun restorePuzzles ::
  "puzzleState option list \<Rightarrow> region list \<Rightarrow> padTable \<Rightarrow> bool \<times> region list \<times> padTable" where
  "restorePuzzles [] rs tbl = (True, rs, tbl)"
| "restorePuzzles (pv # pvs) [] tbl = (True, [], tbl)"
| "restorePuzzles (pv # pvs) (r # rs) tbl =
     (case puzzle r of
        None \<Rightarrow> (case restorePuzzles pvs rs tbl of (ok, rs', tbl') \<Rightarrow> (ok, r # rs', tbl'))
      | Some p \<Rightarrow>
          (case pv of
             None \<Rightarrow> (False, r # rs, tbl)
           | Some st \<Rightarrow>
               (case setState st tbl p of (p', tbl1) \<Rightarrow>
                  (case restorePuzzles pvs rs tbl1 of (ok, rs', tbl') \<Rightarrow>
                     (ok, r\<lparr>puzzle := Some p'\<rparr> # rs', tbl')))))"

text \<open>The steps 4 of \<open>loadGame\<close>, inside the inner \<open>try\<close>.\<close>

definition restoreComponents :: "snapshot \<Rightarrow> state \<Rightarrow> bool \<times> state" where
  "restoreComponents st s =
     (case seeds_json st of
        Parsed (Some loadedSeeds) \<Rightarrow>
          (case restoreSeeds loadedSeeds (regions s) of (ok1, rs1) \<Rightarrow>
             if \<not> ok1 then (False, s\<lparr>regions := rs1\<rparr>)
             else
               (case crates_json st of
                  Parsed (Some loadedCrates) \<Rightarrow>
                    (case restoreCrates loadedCrates rs1 of (ok2, rs2) \<Rightarrow>
                       if \<not> ok2 then (False, s\<lparr>regions := rs2\<rparr>)
                       else
                         (case puzzles_json st of
                            Parsed (Some loadedPuzzles) \<Rightarrow>
                              (case restorePuzzles loadedPuzzles rs2 (puzzlePadInteraction s) of
                                 (ok3, rs3, tbl) \<Rightarrow>
                                   (ok3, s\<lparr>regions := rs3, puzzlePadInteraction := tbl\<rparr>))
                          | _ \<Rightarrow> (False, s\<lparr>regions := rs2\<rparr>)))
                | _ \<Rightarrow> (False, s\<lparr>regions := rs1\<rparr>)))
      | _ \<Rightarrow> (False, s))"

text \<open>\<open>loadGame\<close>: the value returned and the globals as the call leaves them. The
  player's name is not modelled.\<close>

definition loadGame :: "response \<Rightarrow> state \<Rightarrow> bool \<times> state" where
  "loadGame resp s =
     (case resp of
        FetchFailed \<Rightarrow> (False, s)
      | NoSave \<Rightarrow> (False, s)
      | Row st \<Rightarrow>
          if player_name st = None then (False, s)
          else restoreComponents st
                 (s\<lparr>currentRegion := region_id st,
                    player := (player s)\<lparr>xpos := pos_x st, ypos := pos_y st\<rparr>,
                    gameTime := game_time st\<rparr>))"

definition syncGates :: "region list \<Rightarrow> region list" where
  "syncGates rs =
     map (\<lambda>i. if i \<le> 3
              then (rs ! i)\<lparr>gate := map_option
                     (\<lambda>g. g\<lparr>closed := (case puzzle (rs ! i) of None \<Rightarrow> False
                                        | Some p \<Rightarrow> blocksExit p)\<rparr>) (gate (rs ! i))\<rparr>
              else rs ! i) [0..<length rs]"

text \<open>\<open>initGame\<close> up to the point where it starts the loop. The avatar request, the
  player's name and the music are left out.\<close>

definition initGame :: "bool \<Rightarrow> response \<Rightarrow> state \<Rightarrow> state option" where
  "initGame newGame resp s =
     do {
       s1 \<leftarrow> generateContent s;
       let (loaded, s2) = (if \<not> newGame then loadGame resp s1 else (False, s1));
       let s3 = (if \<not> loaded
                 then s2\<lparr>currentRegion := 0,
                         player := (player s2)\<lparr>xpos := TILE * 3, ypos := TILE * 3\<rparr>,
                         gameTime := 0,
                         effects := effects s2 @ [SaveGame]\<rparr>
                 else s2);
       Some (s3\<lparr>regions := syncGates (regions s3), paused := False,
                 effects := effects s3 @ [UpdateSeedCounter]\<rparr>)
     }"

subsection \<open>The crate puzzle as the specification words it\<close>

text \<open>
  The specification asks for every crate to overlap some distinct target zone: an
  assignment of the crates to target zones, no zone used twice. \<open>distinctMatch\<close> searches
  for one, removing from the zones the one given to the first crate.
\<close>

fun removeAt :: "nat \<Rightarrow> 'a list \<Rightarrow> 'a list" where
  "removeAt i [] = []"
| "removeAt 0 (a # as) = as"
| "removeAt (Suc i) (a # as) = a # removeAt i as"

fun distinctMatch :: "rect list \<Rightarrow> rect list \<Rightarrow> bool" where
  "distinctMatch [] tgs = True"
| "distinctMatch (c # cs) tgs =
     list_ex (\<lambda>i. rectOverlap c (tgs ! i) \<and> distinctMatch cs (removeAt i tgs)) [0..<length tgs]"

definition spec_isSolved :: "rect list \<Rightarrow> rect list \<Rightarrow> bool" where
  "spec_isSolved crs tgs = (length crs = length tgs \<and> distinctMatch crs tgs)"

subsection \<open>Concrete configurations\<close>

text \<open>The target zones and the pads as \<open>generateContent\<close> lays them out, a player of the
  size the script gives it, and the table with the one entry of the sequence puzzle.\<close>

definition targetsOfRegion2 :: "rect list" where
  "targetsOfRegion2 =
     [mkRect (6 * TILE) (6 * TILE) TILE TILE, mkRect (24 * TILE) (12 * TILE) TILE TILE]"

text \<open>Two crates side by side, each over a part of the first target zone and neither
  near the second; and the two crates each on a target zone of its own.\<close>

definition cratesOnOneTarget :: "rect list" where
  "cratesOnOneTarget = [mkRect 165 191 TILE TILE, mkRect 198 192 TILE TILE]"

definition cratesOnBothTargets :: "rect list" where
  "cratesOnBothTargets = [mkRect 195 191 TILE TILE, mkRect 765 381 TILE TILE]"



definition region1Pads :: "pos list" where
  "region1Pads =
     [xy (25 * TILE) (8 * TILE), xy (26 * TILE) (8 * TILE), xy (27 * TILE) (8 * TILE)]"

definition playerAt :: "real \<Rightarrow> real \<Rightarrow> playerObj" where
  "playerAt a b = \<lparr>xpos = a, ypos = b, width = 24, height = 24, speed = 3\<rparr>"

definition tableWith :: "bool \<Rightarrow> int \<Rightarrow> padTable" where
  "tableWith e i = [padKey0 \<mapsto> \<lparr>enteredCorrectPad = e, lastHitIndex = i\<rparr>]"


text \<open>What \<open>generateContent\<close> makes of the initial globals, written out.\<close>

definition gateOfRegion :: gateObj where
  "gateOfRegion =
     \<lparr>xpos = COLS * TILE - 8, ypos = 0, width = 16, height = ROWS * TILE, closed = True\<rparr>"

definition generated :: state where
  "generated =
     initialState\<lparr>
       regions :=
         [\<lparr>rid = 0, cols = COLS, rows = ROWS,
           seeds = [newSeed 320 192],
           obstacles = [mkRect 384 224 32 32],
           crates = [mkRect 192 192 32 32],
           targets = [],
           puzzle = Some (DynamicPlatePuzzle False
                            [\<lparr>xpos = 128, ypos = 160, isPressed = False\<rparr>,
                             \<lparr>xpos = 256, ypos = 160, isPressed = False\<rparr>]),
           gate = Some gateOfRegion\<rparr>,
          \<lparr>rid = 1, cols = COLS, rows = ROWS,
           seeds = [newSeed 768 288],
           obstacles = [mkRect 704 160 64 32, mkRect 864 384 64 32],
           crates = [],
           targets = [],
           puzzle = Some (StrictSequencePuzzle False 0 region1Pads padKey0),
           gate = Some gateOfRegion\<rparr>,
          \<lparr>rid = 2, cols = COLS, rows = ROWS,
           seeds = [newSeed 256 128],
           obstacles = [mkRect 480 192 64 64, mkRect 640 96 96 32, mkRect 640 448 96 32],
           crates = [mkRect 384 128 32 32, mkRect 384 384 32 32],
           targets = targetsOfRegion2,
           puzzle = Some (CratePuzzle False),
           gate = Some gateOfRegion\<rparr>,
          \<lparr>rid = 3, cols = COLS, rows = ROWS,
           seeds = [newSeed 384 256, newSeed 576 320],
           obstacles = [mkRect 832 224 96 32, mkRect 160 320 64 64],
           crates = [],
           targets = [],
           puzzle = Some (TeleporterPuzzle False
                            [\<lparr>xpos = 704, ypos = 128, active = False\<rparr>,
                             \<lparr>xpos = 256, ypos = 448, active = False\<rparr>]),
           gate = Some gateOfRegion\<rparr>,
          \<lparr>rid = 4, cols = COLS, rows = ROWS,
           seeds = [],
           obstacles = [mkRect 256 320 64 64],
           crates = [],
           targets = [],
           puzzle = None,
           gate = None\<rparr>],
       puzzlePadInteraction := tableWith False (-1)\<rparr>"

text \<open>
  Region 2 after the player has pushed the first crate to the left edge, left the region,
  come back in on top of the crate (the entry point is x = 2) and walked right with it:
  each step moves the crate and the player together. The gate of the region is closed.
\<close>

definition carriedState :: state where
  "carriedState =
     generated\<lparr>currentRegion := 2,
               regions := (regions generated)[2 := (regions generated ! 2)
                            \<lparr>crates := [mkRect 924 128 TILE TILE, mkRect 384 384 TILE TILE]\<rparr>],
               player := playerAt 926 129\<rparr>"

text \<open>The player in region 0, one step left of the closed gate, no crate near.\<close>

definition atGate :: state where
  "atGate = generated\<lparr>player := playerAt 927 96\<rparr>"


text \<open>A save row whose \<open>seeds\<close> column parses to \<open>[[true]]\<close> and whose \<open>crates\<close> column
  holds the JSON text \<open>null\<close>, as \<open>save.php\<close> stores it for a request without crates.\<close>

definition brokenSave :: snapshot where
  "brokenSave =
     \<lparr>player_name = Some ''Lyra'', region_id = 1, pos_x = 500, pos_y = 300, game_time = 60000,
      seeds_json = Parsed (Some [Some [True]]),
      crates_json = Parsed None,
      puzzles_json = Parsed (Some [])\<rparr>"

text \<open>The part of the state that \<open>initGame\<close> sets when no save was loaded.\<close>

definition startValues :: "state \<Rightarrow> nat \<times> real \<times> real \<times> real" where
  "startValues s = (currentRegion s, xpos (player s), ypos (player s), gameTime s)"

definition collectedFlags :: "state \<Rightarrow> bool list list" where
  "collectedFlags s = map (\<lambda>r. map collected (seeds r)) (regions s)"

text \<open>A walk: one puzzle update per player position, no key pressed, no crates.\<close>

fun updateAlong ::
  "playerObj list \<Rightarrow> padTable \<Rightarrow> puzzle \<Rightarrow> (puzzle \<times> padTable) option" where
  "updateAlong [] tbl p = Some (p, tbl)"
| "updateAlong (pl # pls) tbl p =
     (case update pl False [] [] tbl p of
        None \<Rightarrow> None
      | Some (p', tbl', fx) \<Rightarrow> updateAlong pls tbl' p')"

subsection \<open>Invariants of a running session\<close>

text \<open>
  The sizes the script fixes and never changes: five regions of \<open>COLS\<close> by \<open>ROWS\<close>
  tiles, a player of 24 by 24, and a current region inside the array.
\<close>

definition stdGeometry :: "state \<Rightarrow> bool" where
  "stdGeometry s =
     (length (regions s) = 5 \<and> currentRegion s < 5
      \<and> list_all (\<lambda>r. cols r = COLS \<and> rows r = ROWS) (regions s)
      \<and> width (player s) = 24 \<and> height (player s) = 24)"

text \<open>A sequence puzzle finds its entry in the table, as after its factory ran.\<close>

definition puzzleReady :: "padTable \<Rightarrow> puzzle \<Rightarrow> bool" where
  "puzzleReady tbl p =
     (case p of StrictSequencePuzzle sv ix pads k \<Rightarrow> tbl k \<noteq> None | _ \<Rightarrow> True)"

definition tableReady :: "padTable \<Rightarrow> region \<Rightarrow> bool" where
  "tableReady tbl r = (case puzzle r of None \<Rightarrow> True | Some p \<Rightarrow> puzzleReady tbl p)"

definition ready :: "state \<Rightarrow> bool" where
  "ready s = (stdGeometry s \<and> list_all (tableReady (puzzlePadInteraction s)) (regions s))"

text \<open>The player's rectangle lies inside the pixel bounds of the current region.\<close>

definition inBounds :: "state \<Rightarrow> bool" where
  "inBounds s =
     (case regionAt s (currentRegion s) of
        None \<Rightarrow> False
      | Some r \<Rightarrow>
          0 \<le> xpos (player s) \<and> xpos (player s) + width (player s) \<le> cols r * TILE
          \<and> 0 \<le> ypos (player s) \<and> ypos (player s) + height (player s) \<le> rows r * TILE)"

text \<open>What the four edge tests leave alone.\<close>

definition sameWorld :: "state \<Rightarrow> state \<Rightarrow> bool" where
  "sameWorld s s' =
     (regions s' = regions s \<and> puzzlePadInteraction s' = puzzlePadInteraction s
      \<and> width (player s') = width (player s) \<and> height (player s') = height (player s))"

section \<open>Properties\<close>

subsection \<open>The overlap test\<close>

lemma rectOverlap_iff:
  "rectOverlap a b =
     (\<not> (xpos a + width a \<le> xpos b \<or> xpos a \<ge> xpos b + width b
        \<or> ypos a + height a \<le> ypos b \<or> ypos a \<ge> ypos b + height b))"
  by (simp add: rectOverlap_def rectOverlapJS_def fullFields_def js_plus_def js_le_def js_ge_def)

text \<open>With the sizes of the second argument missing, only the two tests that do not
  read them remain.\<close>

lemma rectOverlapBare_iff:
  "rectOverlapBare a p = (xpos a + width a > xpos p \<and> ypos a + height a > ypos p)"
  by (auto simp add: rectOverlapBare_def rectOverlapJS_def fullFields_def bareFields_def
      js_plus_def js_le_def js_ge_def)

text \<open>On two full rectangles the test is boundary-exclusive: rectangles that share only
  an edge or a corner do not overlap.\<close>

lemma rectOverlap_touching:
  "xpos a + width a = xpos b \<or> xpos b + width b = xpos a
     \<or> ypos a + height a = ypos b \<or> ypos b + height b = ypos a \<Longrightarrow> \<not> rectOverlap a b"
  by (auto simp add: rectOverlap_iff)

lemma rectOverlap_strict:
  "rectOverlap a b =
     (xpos b < xpos a + width a \<and> xpos a < xpos b + width b
      \<and> ypos b < ypos a + height a \<and> ypos a < ypos b + height b)"
  by (auto simp add: rectOverlap_iff)

lemma rectOverlap_exact: "rectOverlap a b = rectOverlapWith (+) a b"
  by (simp add: rectOverlap_iff rectOverlapWith_def)

text \<open>
  C7, as amended. Whatever the addition computes, the overlap test is symmetric for all
  rectangles, and a rectangle overlaps itself exactly when its computed sums come out
  strictly above its corner, \<open>x < x + w\<close> and \<open>y < y + h\<close>. If adding a number that is zero
  or negative never gives more than the other summand, as is the case for exact and for
  rounded sums, then a rectangle whose width or height is zero or negative does not
  overlap itself. The test depends on its two arguments only and answers for all of
  them; with exact sums it is \<open>rectOverlap\<close>.
\<close>

theorem rectOverlap_symmetric_self:
  "rectOverlap a b = rectOverlapWith (+) a b
   \<and> rectOverlapWith add a b = rectOverlapWith add b a
   \<and> rectOverlapWith add a a
       = (xpos a < add (xpos a) (width a) \<and> ypos a < add (ypos a) (height a))
   \<and> ((\<forall>u v. v \<le> 0 \<longrightarrow> add u v \<le> u) \<and> (width a \<le> 0 \<or> height a \<le> 0)
        \<longrightarrow> \<not> rectOverlapWith add a a)"
proof -
  have sym: "rectOverlapWith add a b = rectOverlapWith add b a"
    by (auto simp add: rectOverlapWith_def)
  have self: "rectOverlapWith add a a
       = (xpos a < add (xpos a) (width a) \<and> ypos a < add (ypos a) (height a))"
    by (auto simp add: rectOverlapWith_def)
  have deg: "\<not> rectOverlapWith add a a"
    if "\<forall>u v. v \<le> 0 \<longrightarrow> add u v \<le> u" and "width a \<le> 0 \<or> height a \<le> 0"
  proof -
    from that have "add (xpos a) (width a) \<le> xpos a \<or> add (ypos a) (height a) \<le> ypos a"
      by blast
    then show ?thesis unfolding self by auto
  qed
  show ?thesis using rectOverlap_exact sym self deg by blast
qed

theorem rectOverlap_symmetric_self_witness:
  "width (mkRect 5 5 0 10) \<le> 0
   \<and> \<not> rectOverlapWith (+) (mkRect 5 5 0 10) (mkRect 5 5 0 10)
   \<and> rectOverlapWith (+) (mkRect 0 0 24 24) (mkRect 10 10 32 32)
       = rectOverlapWith (+) (mkRect 10 10 32 32) (mkRect 0 0 24 24)
   \<and> rectOverlapWith (+) (mkRect 0 0 24 24) (mkRect 0 0 24 24)"
  using rectOverlap_symmetric_self [of "mkRect 5 5 0 10" "mkRect 5 5 0 10" "(+)"]
    rectOverlap_symmetric_self [of "mkRect 0 0 24 24" "mkRect 10 10 32 32" "(+)"]
  by (simp add: mkRect_def)

text \<open>C7 as stated fails: a rectangle of width 0 does not overlap itself.\<close>

theorem rectOverlap_self_counterexample:
  "\<not> rectOverlap (mkRect 5 5 0 10) (mkRect 5 5 0 10)"
  by (simp add: rectOverlap_iff mkRect_def)

text \<open>
  C9. The claim has every use of the test treat an exactly adjacent rectangle as not
  overlapping. The exit test of the sequence puzzle hands the bare pad to the test: a
  player rectangle placed exactly below pad 0, touching it along one edge, does not
  overlap the pad's tile, and the call still answers that it overlaps.
\<close>

theorem adjacent_pad_reported_overlapping:
  "\<not> rectOverlap (mkRect 800 288 TILE TILE) (tileRect (xy 800 256))
   \<and> rectOverlapBare (mkRect 800 288 TILE TILE) (xy 800 256)"
  by (simp add: rectOverlap_iff rectOverlapBare_iff mkRect_def tileRect_def xy_def TILE_def)

subsection \<open>Puzzles\<close>

text \<open>
  C2, as amended. An update of the crate puzzle leaves it solved exactly when it was
  solved before, or the crates and the target zones are equally many and every crate
  overlaps some target zone; two crates may overlap the same zone.
\<close>

theorem Crate_update_solved:
  "solved (fst (Crate_update crs tgs sv)) =
     (sv \<or> (length crs = length tgs \<and> (\<forall>c\<in>set crs. \<exists>t\<in>set tgs. rectOverlap c t)))"
  by (auto simp add: Crate_update_def isSolved_def list_all_iff list_ex_iff Let_def)

theorem Crate_update_solved_witness:
  "solved (fst (Crate_update cratesOnBothTargets targetsOfRegion2 False))"
  using Crate_update_solved [of cratesOnBothTargets targetsOfRegion2 False]
  by (simp add: cratesOnBothTargets_def targetsOfRegion2_def rectOverlap_iff mkRect_def TILE_def)

text \<open>C2 as stated fails: with both crates over the first target zone only, the update
  sets \<open>solved\<close>, and no assignment of the crates to distinct zones exists.\<close>

theorem Crate_update_same_target_counterexample:
  "Crate_update cratesOnOneTarget targetsOfRegion2 False = (CratePuzzle True, [PuzzleClear])
   \<and> \<not> spec_isSolved cratesOnOneTarget targetsOfRegion2"
  by (simp add: Crate_update_def isSolved_def spec_isSolved_def cratesOnOneTarget_def
      targetsOfRegion2_def rectOverlap_iff mkRect_def TILE_def upt_rec)

text \<open>The condition of the specification is the stronger one: whenever the crates can
  be assigned to distinct target zones, \<open>isSolved\<close> holds.\<close>

lemma removeAt_subset: "set (removeAt i as) \<subseteq> set as"
  by (induction i as rule: removeAt.induct) auto

lemma distinctMatch_every_crate:
  "distinctMatch crs tgs \<Longrightarrow> list_all (\<lambda>c. list_ex (\<lambda>t. rectOverlap c t) tgs) crs"
proof (induction crs arbitrary: tgs)
  case Nil
  then show ?case by simp
next
  case (Cons c cs)
  then obtain i where i: "i < length tgs" "rectOverlap c (tgs ! i)"
      "distinctMatch cs (removeAt i tgs)"
    by (auto simp add: list_ex_iff)
  from Cons.IH [OF i(3)]
  have "list_all (\<lambda>c. list_ex (\<lambda>t. rectOverlap c t) (removeAt i tgs)) cs" .
  then have "list_all (\<lambda>c. list_ex (\<lambda>t. rectOverlap c t) tgs) cs"
    using removeAt_subset [of i tgs] by (auto simp add: list_all_iff list_ex_iff)
  moreover have "list_ex (\<lambda>t. rectOverlap c t) tgs"
    using i(1,2) by (auto simp add: list_ex_iff)
  ultimately show ?case by simp
qed

lemma spec_isSolved_implies_isSolved: "spec_isSolved crs tgs \<Longrightarrow> isSolved crs tgs"
  by (simp add: spec_isSolved_def isSolved_def distinctMatch_every_crate)








text \<open>
  C5. An update of a puzzle whose \<open>solved\<close> is true returns the puzzle and the table
  unchanged and asks for no sound, whatever the player, the crates, the target zones and
  the interact signal are.
\<close>

theorem update_solved_noop:
  "solved p \<Longrightarrow> update pl key crs tgs tbl p = Some (p, tbl, [])"
  by (cases p)
    (simp_all add: DynamicPlate_update_def StrictSequence_update_def Crate_update_def
      Teleporter_update_def)

theorem update_solved_noop_witness:
  "solved (StrictSequencePuzzle True 3 region1Pads padKey0)
   \<and> update (playerAt 800 256) True [] [] (tableWith False (-1))
       (StrictSequencePuzzle True 3 region1Pads padKey0)
     = Some (StrictSequencePuzzle True 3 region1Pads padKey0, tableWith False (-1), [])"
  using update_solved_noop [of "StrictSequencePuzzle True 3 region1Pads padKey0"
      "playerAt 800 256" True "[]" "[]" "tableWith False (-1)"]
  by simp

text \<open>
  C6. The player enters pad 0 at (800, 255) while the index is 0: the flag is set. It
  then leaves the pad downwards and stands at (800, 288), overlapping no pad. The claim
  has the index go to 1; the update leaves it at 0 with the flag still set, because the
  exit test compares against the bare pad and finds the player still on it.
\<close>

theorem StrictSequence_exit_below_stays:
  "StrictSequence_update (playerAt 800 255) (tableWith False (-1)) False 0 region1Pads padKey0
     = Some (StrictSequencePuzzle False 0 region1Pads padKey0, tableWith True 0, [])
   \<and> StrictSequence_update (playerAt 800 288) (tableWith True 0) False 0 region1Pads padKey0
     = Some (StrictSequencePuzzle False 0 region1Pads padKey0, tableWith True 0, [])"
  by (simp add: StrictSequence_update_def tableWith_def playerAt_def region1Pads_def xy_def
      findIndex_def tileRect_def mkRect_def TILE_def rectOverlap_iff rectOverlapBare_iff
      arrayAt_def)

text \<open>Leaving the same pad upwards does advance the index.\<close>

lemma StrictSequence_exit_above_advances:
  "StrictSequence_update (playerAt 800 224) (tableWith True 0) False 0 region1Pads padKey0
     = Some (StrictSequencePuzzle False 1 region1Pads padKey0, tableWith False (-1), [Interact])"
  by (simp add: StrictSequence_update_def tableWith_def playerAt_def region1Pads_def xy_def
      findIndex_def tileRect_def mkRect_def TILE_def rectOverlap_iff rectOverlapBare_iff
      arrayAt_def)

text \<open>What the sequence puzzle does on each kind of tick while it is unsolved, \<open>e\<close> being
  its entry in the table. The pad "touched" is the first pad in list order that the
  tile-sized rectangle at the player's position overlaps.\<close>

lemma StrictSequence_wrong_pad_resets:
  assumes "tbl k = Some e"
    and "findIndex (\<lambda>p. rectOverlap (mkRect (xpos pl) (ypos pl) TILE TILE) (tileRect p)) pads = t"
    and "t \<noteq> -1" and "t \<noteq> ix"
  shows "StrictSequence_update pl tbl False ix pads k
           = Some (StrictSequencePuzzle False 0 pads k,
                   tbl(k \<mapsto> \<lparr>enteredCorrectPad = False, lastHitIndex = -1\<rparr>), [Reset])"
  using assms by (simp add: StrictSequence_update_def Let_def)

lemma StrictSequence_target_pad_enters:
  assumes "tbl k = Some e"
    and "findIndex (\<lambda>p. rectOverlap (mkRect (xpos pl) (ypos pl) TILE TILE) (tileRect p)) pads = ix"
  shows "StrictSequence_update pl tbl False ix pads k
           = Some (StrictSequencePuzzle False ix pads k,
                   tbl(k \<mapsto> \<lparr>enteredCorrectPad = True, lastHitIndex = ix\<rparr>), [])"
  using assms by (simp add: StrictSequence_update_def Let_def)

text \<open>With no pad touched and the flag set, the index advances exactly when the player's
  rectangle is wholly to the left of or wholly above the top-left corner of the pad it
  entered; then the puzzle is solved if the index has reached the number of pads.\<close>

lemma StrictSequence_exit:
  assumes "tbl k = Some e" and "enteredCorrectPad e" and "arrayAt pads (lastHitIndex e) = Some p"
    and "findIndex (\<lambda>p. rectOverlap (mkRect (xpos pl) (ypos pl) TILE TILE) (tileRect p)) pads = -1"
    and "ix \<noteq> -1"
  shows "StrictSequence_update pl tbl False ix pads k =
           (if xpos pl + TILE \<le> xpos p \<or> ypos pl + TILE \<le> ypos p
            then Some (StrictSequencePuzzle (ix + 1 \<ge> int (length pads)) (ix + 1) pads k,
                       tbl(k \<mapsto> \<lparr>enteredCorrectPad = False, lastHitIndex = -1\<rparr>),
                       if ix + 1 \<ge> int (length pads) then [Interact, PuzzleClear] else [Interact])
            else Some (StrictSequencePuzzle False ix pads k, tbl, []))"
  using assms
  by (auto simp add: StrictSequence_update_def Let_def rectOverlapBare_iff mkRect_def)

text \<open>Entering pad 1 and leaving it upwards while the index is 0 leaves the puzzle
  unsolved at index 0; entering pads 0, 1 and 2 in order, each left upwards, solves it.\<close>

lemma StrictSequence_wrong_pad_then_off:
  "updateAlong [playerAt 832 255, playerAt 832 224] (tableWith False (-1))
     (StrictSequencePuzzle False 0 region1Pads padKey0)
   = Some (StrictSequencePuzzle False 0 region1Pads padKey0, tableWith False (-1))"
  by (simp add: StrictSequence_update_def tableWith_def playerAt_def region1Pads_def xy_def
      findIndex_def tileRect_def mkRect_def TILE_def rectOverlap_iff rectOverlapBare_iff
      arrayAt_def)

lemma StrictSequence_in_order_solves:
  "updateAlong [playerAt 800 255, playerAt 800 224, playerAt 832 255, playerAt 832 224,
                playerAt 864 255, playerAt 864 224] (tableWith False (-1))
     (StrictSequencePuzzle False 0 region1Pads padKey0)
   = Some (StrictSequencePuzzle True 3 region1Pads padKey0, tableWith False (-1))"
  by (simp add: StrictSequence_update_def tableWith_def playerAt_def region1Pads_def xy_def
      findIndex_def tileRect_def mkRect_def TILE_def rectOverlap_iff rectOverlapBare_iff
      arrayAt_def)

subsection \<open>Movement against the gate\<close>

lemma findIndexFrom_none:
  "0 \<le> i \<Longrightarrow> (findIndexFrom P as i = -1) = (\<forall>a\<in>set as. \<not> P a)"
  by (induction as arbitrary: i) auto

lemma findIndex_none: "(findIndex P as = -1) = (\<forall>a\<in>set as. \<not> P a)"
  by (simp add: findIndex_def findIndexFrom_none)

lemma moveHorizontally_gate:
  assumes "gate r = Some g" "closed g"
    and "rectOverlap (mkRect (xpos pl + dx) (ypos pl) (width pl) (height pl)) g"
    and "\<forall>c\<in>set (crates r).
           \<not> rectOverlap (mkRect (xpos pl + dx) (ypos pl) (width pl) (height pl)) c"
  shows "moveHorizontally dx pl r = (r, xpos pl)"
proof -
  have "findIndex (\<lambda>c. rectOverlap (mkRect (xpos pl + dx) (ypos pl) (width pl) (height pl)) c)
          (crates r) = -1"
    using assms(4) by (simp add: findIndex_none)
  moreover have "\<not> canPlayerMoveTo (xpos pl + dx) (ypos pl) pl r"
    using assms(1-3) by (simp add: canPlayerMoveTo_def Let_def)
  ultimately show ?thesis
    by (simp add: moveHorizontally_def Let_def)
qed

lemma moveVertically_gate:
  assumes "gate r = Some g" "closed g"
    and "rectOverlap (mkRect nx (ypos pl + dy) (width pl) (height pl)) g"
    and "\<forall>c\<in>set (crates r).
           \<not> rectOverlap (mkRect nx (ypos pl + dy) (width pl) (height pl)) c"
  shows "moveVertically dy nx pl r = (r, ypos pl)"
proof -
  have "findIndex (\<lambda>c. rectOverlap (mkRect nx (ypos pl + dy) (width pl) (height pl)) c)
          (crates r) = -1"
    using assms(4) by (simp add: findIndex_none)
  moreover have "\<not> canPlayerMoveTo nx (ypos pl + dy) pl r"
    using assms(1-3) by (simp add: canPlayerMoveTo_def Let_def)
  ultimately show ?thesis
    by (simp add: moveVertically_def Let_def)
qed

lemma movePlayer_horizontal_blocked:
  assumes "regionAt s (currentRegion s) = Some r"
    and "moveHorizontally dx (player s) r = (r, xpos (player s))"
  shows "movePlayer dx 0 s = Some s"
proof -
  have "regions s ! currentRegion s = r"
    using assms(1) by (auto simp add: regionAt_def split: if_splits)
  then have "(regions s)[currentRegion s := r] = regions s"
    by (metis list_update_id)
  then show ?thesis using assms by (simp add: movePlayer_def Let_def)
qed

lemma movePlayer_vertical_blocked:
  assumes "regionAt s (currentRegion s) = Some r"
    and "moveVertically dy (xpos (player s)) (player s) r = (r, ypos (player s))"
  shows "movePlayer 0 dy s = Some s"
proof -
  have "regions s ! currentRegion s = r"
    using assms(1) by (auto simp add: regionAt_def split: if_splits)
  then have "(regions s)[currentRegion s := r] = regions s"
    by (metis list_update_id)
  then show ?thesis using assms by (simp add: movePlayer_def Let_def)
qed

text \<open>
  C1, as amended. While the gate of the current region is closed: if the player's
  candidate rectangle on an axis overlaps the gate and overlaps no crate, that axis is
  rejected, the player keeps its coordinate and no crate moves; a move along that axis
  alone leaves the whole state as it was. Nothing is said of a candidate rectangle that
  also overlaps a crate: there the crate push alone decides.
\<close>

theorem closed_gate_blocks_without_crate:
  assumes "regionAt s (currentRegion s) = Some r" and "gate r = Some g" and "closed g"
  shows "(rectOverlap (mkRect (xpos (player s) + dx) (ypos (player s))
                         (width (player s)) (height (player s))) g
          \<and> (\<forall>c\<in>set (crates r).
                \<not> rectOverlap (mkRect (xpos (player s) + dx) (ypos (player s))
                                 (width (player s)) (height (player s))) c)
          \<longrightarrow> moveHorizontally dx (player s) r = (r, xpos (player s))
              \<and> movePlayer dx 0 s = Some s)
       \<and> (rectOverlap (mkRect nx (ypos (player s) + dy)
                         (width (player s)) (height (player s))) g
          \<and> (\<forall>c\<in>set (crates r).
                \<not> rectOverlap (mkRect nx (ypos (player s) + dy)
                                 (width (player s)) (height (player s))) c)
          \<longrightarrow> moveVertically dy nx (player s) r = (r, ypos (player s))
              \<and> (nx = xpos (player s) \<longrightarrow> movePlayer 0 dy s = Some s))"
  using assms moveHorizontally_gate [of r g "player s" dx]
    moveVertically_gate [of r g nx "player s" dy]
    movePlayer_horizontal_blocked [of s r dx] movePlayer_vertical_blocked [of s r dy]
  by blast

theorem closed_gate_blocks_without_crate_witness:
  "regionAt atGate (currentRegion atGate) = Some (regions generated ! 0)
   \<and> gate (regions generated ! 0) = Some gateOfRegion \<and> closed gateOfRegion
   \<and> rectOverlap (mkRect (927 + 3) 96 24 24) gateOfRegion
   \<and> movePlayer 3 0 atGate = Some atGate"
  using closed_gate_blocks_without_crate [of atGate "regions generated ! 0" gateOfRegion 3 0 0]
  by (simp add: atGate_def generated_def initialState_def regionAt_def gateOfRegion_def
      playerAt_def rectOverlap_iff mkRect_def COLS_def ROWS_def TILE_def)

text \<open>C1 as stated fails: the gate of region 2 is closed, the candidate rectangle of a
  step to the right overlaps both the gate and a crate, and the step is taken; the
  player ends inside the gate's rectangle and the crate is pushed into it.\<close>

theorem closed_gate_crate_counterexample:
  "gate (regions carriedState ! 2) = Some gateOfRegion
   \<and> closed gateOfRegion
   \<and> rectOverlap (mkRect (926 + 3) 129 24 24) gateOfRegion
   \<and> map_option player (movePlayer 3 0 carriedState) = Some (playerAt 929 129)
   \<and> map_option (\<lambda>s. crates (regions s ! 2)) (movePlayer 3 0 carriedState)
       = Some [mkRect 927 128 TILE TILE, mkRect 384 384 TILE TILE]
   \<and> rectOverlap (mkRect 927 128 TILE TILE) gateOfRegion"
  by (simp add: carriedState_def generated_def initialState_def TILE_def COLS_def ROWS_def
      gateOfRegion_def rectOverlap_iff mkRect_def movePlayer_def regionAt_def playerAt_def
      moveHorizontally_def findIndex_def canRectMoveTo_def upt_rec targetsOfRegion2_def)

subsection \<open>Region transition\<close>


lemma upto4: "cur < 5 \<Longrightarrow> cur = 0 \<or> cur = 1 \<or> cur = 2 \<or> cur = 3 \<or> cur = (4::nat)"
  by arith

lemma edgeOf_right:
  "cur < 5 \<Longrightarrow> edgeOf cur (Suc 0) = Some (if cur < 4 then Some (Suc cur) else None)"
  using upto4 [of cur] by (auto simp add: edgeOf_def regionEdges_def)

lemma edgeOf_left:
  "cur < 5 \<Longrightarrow> edgeOf cur 3 = Some (if 0 < cur then Some (cur - 1) else None)"
  using upto4 [of cur] by (auto simp add: edgeOf_def regionEdges_def)

lemma edgeOf_top: "cur < 5 \<Longrightarrow> edgeOf cur 0 = Some None"
  using upto4 [of cur] by (auto simp add: edgeOf_def regionEdges_def)

lemma edgeOf_bottom: "cur < 5 \<Longrightarrow> edgeOf cur 2 = Some None"
  using upto4 [of cur] by (auto simp add: edgeOf_def regionEdges_def)


lemma stdGeometry_region:
  "stdGeometry s \<Longrightarrow> i < 5 \<Longrightarrow> regionAt s i = Some (regions s ! i)
     \<and> cols (regions s ! i) = COLS \<and> rows (regions s ! i) = ROWS"
  by (auto simp add: stdGeometry_def regionAt_def list_all_length)

lemma rightEdge_std:
  assumes "stdGeometry s" "cols rg = COLS" "rows rg = ROWS"
  shows "\<exists>s' m'. rightEdge rg (s, m) = Some (s', m') \<and> stdGeometry s' \<and> sameWorld s s'
           \<and> xpos (player s') + 24 \<le> 960"
proof (cases "xpos (player s) + width (player s) > cols rg * TILE")
  case False
  then show ?thesis using assms
    by (simp add: rightEdge_def Let_def sameWorld_def stdGeometry_def COLS_def TILE_def)
next
  case True
  have cur: "currentRegion s < 5" using assms(1) by (simp add: stdGeometry_def)
  show ?thesis
  proof (cases "currentRegion s < 4")
    case False
    then show ?thesis using True assms cur
      by (simp add: rightEdge_def Let_def edgeOf_right sameWorld_def stdGeometry_def COLS_def
          TILE_def)
  next
    case lt: True
    then have nr: "regionAt s (Suc (currentRegion s)) = Some (regions s ! Suc (currentRegion s))"
      using stdGeometry_region [OF assms(1), of "Suc (currentRegion s)"] by simp
    show ?thesis using True assms cur lt nr
      by (auto simp add: rightEdge_def Let_def edgeOf_right sameWorld_def stdGeometry_def)
  qed
qed

lemma leftEdge_std:
  assumes "stdGeometry s" "cols rg = COLS" "rows rg = ROWS" "xpos (player s) + 24 \<le> 960"
  shows "\<exists>s' m'. leftEdge rg (s, m) = Some (s', m') \<and> stdGeometry s' \<and> sameWorld s s'
           \<and> 0 \<le> xpos (player s') \<and> xpos (player s') + 24 \<le> 960"
proof (cases "xpos (player s) < 0")
  case False
  then show ?thesis using assms
    by (simp add: leftEdge_def Let_def sameWorld_def stdGeometry_def)
next
  case True
  have cur: "currentRegion s < 5" using assms(1) by (simp add: stdGeometry_def)
  show ?thesis
  proof (cases "0 < currentRegion s")
    case False
    then show ?thesis using True assms cur
      by (simp add: leftEdge_def Let_def edgeOf_left sameWorld_def stdGeometry_def)
  next
    case gt: True
    then have nr: "regionAt s (currentRegion s - 1) = Some (regions s ! (currentRegion s - 1))"
      "cols (regions s ! (currentRegion s - 1)) = COLS"
      using stdGeometry_region [OF assms(1), of "currentRegion s - 1"] cur by simp_all
    show ?thesis using True assms cur gt nr
      by (auto simp add: leftEdge_def Let_def edgeOf_left sameWorld_def stdGeometry_def COLS_def
          TILE_def)
  qed
qed




lemma topEdge_std:
  assumes "stdGeometry s"
  shows "\<exists>s' m'. topEdge rg (s, m) = Some (s', m') \<and> stdGeometry s' \<and> sameWorld s s'
           \<and> xpos (player s') = xpos (player s) \<and> 0 \<le> ypos (player s')"
  using assms
  by (cases "ypos (player s) < 0")
    (simp_all add: topEdge_def Let_def edgeOf_top sameWorld_def stdGeometry_def)

lemma bottomEdge_std:
  assumes "stdGeometry s" "rows rg = ROWS" "0 \<le> ypos (player s)"
  shows "\<exists>s' m'. bottomEdge rg (s, m) = Some (s', m') \<and> stdGeometry s' \<and> sameWorld s s'
           \<and> xpos (player s') = xpos (player s) \<and> 0 \<le> ypos (player s')
           \<and> ypos (player s') + 24 \<le> 576"
  using assms
  by (cases "ypos (player s) + height (player s) > rows rg * TILE")
    (simp_all add: bottomEdge_def Let_def edgeOf_bottom sameWorld_def stdGeometry_def ROWS_def
      TILE_def)



subsection \<open>The player stays inside the current region\<close>

lemma checkRegionSwitch_std:
  assumes "stdGeometry s"
  shows "\<exists>s'. checkRegionSwitch s = Some s' \<and> stdGeometry s' \<and> sameWorld s s' \<and> inBounds s'"
proof -
  let ?rg = "regions s ! currentRegion s"
  have cur: "currentRegion s < 5" using assms by (simp add: stdGeometry_def)
  have rg: "regionAt s (currentRegion s) = Some ?rg" "cols ?rg = COLS" "rows ?rg = ROWS"
    using stdGeometry_region [OF assms cur] by simp_all
  obtain s1 m1 where 1: "rightEdge ?rg (s, False) = Some (s1, m1)" "stdGeometry s1"
      "sameWorld s s1" "xpos (player s1) + 24 \<le> 960"
    using rightEdge_std [OF assms rg(2,3), of False] by blast
  obtain s2 m2 where 2: "leftEdge ?rg (s1, m1) = Some (s2, m2)" "stdGeometry s2"
      "sameWorld s1 s2" "0 \<le> xpos (player s2)" "xpos (player s2) + 24 \<le> 960"
    using leftEdge_std [OF 1(2) rg(2,3) 1(4), of m1] by blast
  obtain s3 m3 where 3: "topEdge ?rg (s2, m2) = Some (s3, m3)" "stdGeometry s3"
      "sameWorld s2 s3" "xpos (player s3) = xpos (player s2)" "0 \<le> ypos (player s3)"
    using topEdge_std [OF 2(2), of ?rg m2] by blast
  obtain s4 m4 where 4: "bottomEdge ?rg (s3, m3) = Some (s4, m4)" "stdGeometry s4"
      "sameWorld s3 s4" "xpos (player s4) = xpos (player s3)" "0 \<le> ypos (player s4)"
      "ypos (player s4) + 24 \<le> 576"
    using bottomEdge_std [OF 3(2) rg(3) 3(5), of m3] by blast
  let ?s' = "if m4 then s4\<lparr>effects := effects s4
                 @ [FadeToRegion (currentRegion s4), SaveGame, UpdateSeedCounter]\<rparr> else s4"
  have eq: "checkRegionSwitch s = Some ?s'"
    using rg(1) 1(1) 2(1) 3(1) 4(1) by (simp add: checkRegionSwitch_def)
  have sw: "sameWorld s s4"
    using 1(3) 2(3) 3(3) 4(3) by (simp add: sameWorld_def)
  have c4: "currentRegion s4 < 5" using 4(2) by (simp add: stdGeometry_def)
  have r4: "regionAt s4 (currentRegion s4) = Some (regions s4 ! currentRegion s4)"
     "cols (regions s4 ! currentRegion s4) = COLS" "rows (regions s4 ! currentRegion s4) = ROWS"
    using stdGeometry_region [OF 4(2) c4] by simp_all
  have wh: "width (player s4) = 24" "height (player s4) = 24"
    using 4(2) by (simp_all add: stdGeometry_def)
  have ib: "inBounds s4"
    using r4 wh 2(4,5) 3(4) 4(4,5,6) by (simp add: inBounds_def COLS_def ROWS_def TILE_def)
  have "stdGeometry ?s' \<and> sameWorld s ?s' \<and> inBounds ?s'"
    using 4(2) sw ib by (simp add: stdGeometry_def sameWorld_def inBounds_def regionAt_def)
  then show ?thesis using eq by blast
qed

lemma list_all_update: "list_all P xs \<Longrightarrow> P y \<Longrightarrow> list_all P (xs[i := y])"
  by (metis list_all_iff set_update_subset_insert subsetD insertE)

lemma moveHorizontally_frame:
  "moveHorizontally dx pl r = (r1, x1) \<Longrightarrow>
     cols r1 = cols r \<and> rows r1 = rows r \<and> puzzle r1 = puzzle r"
  by (auto simp add: moveHorizontally_def Let_def split: if_splits)

lemma moveVertically_frame:
  "moveVertically dy nx pl r = (r1, y1) \<Longrightarrow>
     cols r1 = cols r \<and> rows r1 = rows r \<and> puzzle r1 = puzzle r"
  by (auto simp add: moveVertically_def Let_def split: if_splits)

lemma ready_region:
  assumes "ready s"
  shows "regionAt s (currentRegion s) = Some (regions s ! currentRegion s)"
    and "cols (regions s ! currentRegion s) = COLS \<and> rows (regions s ! currentRegion s) = ROWS"
    and "tableReady (puzzlePadInteraction s) (regions s ! currentRegion s)"
  using assms
  by (auto simp add: ready_def stdGeometry_def regionAt_def list_all_length)

text \<open>Replacing the current region by one of the same size whose puzzle finds its entry
  keeps the session ready.\<close>

lemma ready_update:
  assumes "ready s" and "cols r' = COLS" "rows r' = ROWS"
    and "tableReady (puzzlePadInteraction s) r'"
  shows "ready (s\<lparr>regions := (regions s)[currentRegion s := r']\<rparr>)"
  using assms by (simp add: ready_def stdGeometry_def list_all_update)

lemma movePlayer_ready:
  assumes "ready s"
  shows "\<exists>s1. movePlayer dx dy s = Some s1 \<and> ready s1"
proof (cases "dx = 0 \<and> dy = 0")
  case True
  then show ?thesis using assms by (simp add: movePlayer_def)
next
  case False
  let ?r = "regions s ! currentRegion s"
  note rg = ready_region [OF assms]
  obtain r1 x1 where h:
    "(if dx \<noteq> 0 then moveHorizontally dx (player s) ?r else (?r, xpos (player s))) = (r1, x1)"
    by (cases "if dx \<noteq> 0 then moveHorizontally dx (player s) ?r else (?r, xpos (player s))")
      simp
  obtain r2 y1 where v:
    "(if dy \<noteq> 0 then moveVertically dy x1 (player s) r1 else (r1, ypos (player s))) = (r2, y1)"
    by (cases "if dy \<noteq> 0 then moveVertically dy x1 (player s) r1 else (r1, ypos (player s))")
      simp
  have f1: "cols r1 = cols ?r \<and> rows r1 = rows ?r \<and> puzzle r1 = puzzle ?r"
    using h moveHorizontally_frame [of dx "player s" ?r r1 x1] by (auto split: if_splits)
  have f2: "cols r2 = cols r1 \<and> rows r2 = rows r1 \<and> puzzle r2 = puzzle r1"
    using v moveVertically_frame [of dy x1 "player s" r1 r2 y1] by (auto split: if_splits)
  have tr: "tableReady (puzzlePadInteraction s) r2"
    using rg(3) f1 f2 by (simp add: tableReady_def)
  have "ready (s\<lparr>regions := (regions s)[currentRegion s := r2]\<rparr>)"
    using ready_update [OF assms _ _ tr] rg(2) f1 f2 by simp
  then have rd: "ready (s\<lparr>regions := (regions s)[currentRegion s := r2],
                    player := (player s)\<lparr>xpos := x1, ypos := y1\<rparr>\<rparr>)"
    by (simp add: ready_def stdGeometry_def)
  have "movePlayer dx dy s = Some (s\<lparr>regions := (regions s)[currentRegion s := r2],
                    player := (player s)\<lparr>xpos := x1, ypos := y1\<rparr>\<rparr>)"
    using False rg(1) h v by (auto simp add: movePlayer_def Let_def)
  then show ?thesis using rd by blast
qed

lemma updateSeeds_ready:
  assumes "ready s"
  shows "\<exists>s2. updateSeeds s = Some s2 \<and> ready s2"
proof -
  let ?r = "regions s ! currentRegion s"
  note rg = ready_region [OF assms]
  obtain sds n where c: "collectSeeds (player s) (seeds ?r) = (sds, n)"
    by (cases "collectSeeds (player s) (seeds ?r)") simp
  have tr: "tableReady (puzzlePadInteraction s) (?r\<lparr>seeds := sds\<rparr>)"
    using rg(3) by (simp add: tableReady_def)
  have "ready (s\<lparr>regions := (regions s)[currentRegion s := ?r\<lparr>seeds := sds\<rparr>]\<rparr>)"
    using ready_update [OF assms _ _ tr] rg(2) by simp
  then have "ready (s\<lparr>regions := (regions s)[currentRegion s := ?r\<lparr>seeds := sds\<rparr>],
                     flashTimer := (if n > 0 then 18 else flashTimer s),
                     effects := effects s @ concat (replicate n [SaveGame, UpdateSeedCounter])\<rparr>)"
    by (simp add: ready_def stdGeometry_def)
  then show ?thesis using rg(1) c by (simp add: updateSeeds_def)
qed

lemma puzzleReady_mono:
  "puzzleReady tbl p \<Longrightarrow> (\<forall>k. tbl k \<noteq> None \<longrightarrow> tbl' k \<noteq> None) \<Longrightarrow> puzzleReady tbl' p"
  by (cases p) (simp_all add: puzzleReady_def)

lemma tableReady_mono:
  "tableReady tbl r \<Longrightarrow> (\<forall>k. tbl k \<noteq> None \<longrightarrow> tbl' k \<noteq> None) \<Longrightarrow> tableReady tbl' r"
  using puzzleReady_mono [of tbl _ tbl']
  by (cases "puzzle r") (simp_all add: tableReady_def)

text \<open>An update of a puzzle that finds its entry does not throw, and leaves a puzzle
  that finds its entry in a table with no entry removed.\<close>

lemma update_keeps_ready:
  assumes "puzzleReady tbl p"
  shows "case update pl key crs tgs tbl p of
           None \<Rightarrow> False
         | Some (p', tbl', fx) \<Rightarrow>
             puzzleReady tbl' p' \<and> (\<forall>j. tbl j \<noteq> None \<longrightarrow> tbl' j \<noteq> None)"
proof (cases p)
  case (DynamicPlatePuzzle sv ps)
  then show ?thesis
    by (simp add: DynamicPlate_update_def Let_def puzzleReady_def)
next
  case (StrictSequencePuzzle sv ix pads k)
  then obtain e where e: "tbl k = Some e" using assms by (auto simp add: puzzleReady_def)
  show ?thesis
    unfolding StrictSequencePuzzle update.simps StrictSequence_update_def Let_def e option.case
    by (simp add: puzzleReady_def e)
next
  case (CratePuzzle sv)
  then show ?thesis
    by (simp add: Crate_update_def Let_def puzzleReady_def)
next
  case (TeleporterPuzzle sv ts)
  then show ?thesis
    by (simp add: Teleporter_update_def Let_def puzzleReady_def)
qed

lemma updatePuzzle_ready:
  assumes "ready s"
  shows "\<exists>s3. updatePuzzle held s = Some s3 \<and> ready s3"
proof -
  let ?r = "regions s ! currentRegion s"
  note rg = ready_region [OF assms]
  show ?thesis
  proof (cases "puzzle ?r")
    case None
    then show ?thesis using rg(1) assms by (simp add: updatePuzzle_def)
  next
    case (Some p)
    then have "puzzleReady (puzzlePadInteraction s) p"
      using rg(3) by (simp add: tableReady_def)
    from update_keeps_ready [OF this, of "player s" "held \<and> \<not> interactionPending s"
        "crates ?r" "targets ?r"]
    obtain p' tbl' fx where u:
      "update (player s) (held \<and> \<not> interactionPending s) (crates ?r) (targets ?r)
          (puzzlePadInteraction s) p = Some (p', tbl', fx)"
      "\<forall>j. puzzlePadInteraction s j \<noteq> None \<longrightarrow> tbl' j \<noteq> None"
      "puzzleReady tbl' p'"
      by (cases "update (player s) (held \<and> \<not> interactionPending s) (crates ?r) (targets ?r)
          (puzzlePadInteraction s) p") auto
    let ?r' = "?r\<lparr>puzzle := Some p',
                  gate := map_option (\<lambda>g. g\<lparr>closed := blocksExit p'\<rparr>) (gate ?r)\<rparr>"
    let ?s' = "s\<lparr>puzzlePadInteraction := tbl'\<rparr>"
    have "list_all (tableReady (puzzlePadInteraction s)) (regions s)"
      using assms by (simp add: ready_def)
    then have "list_all (tableReady tbl') (regions s)"
      using u(2) tableReady_mono [of "puzzlePadInteraction s" _ tbl']
      by (simp add: list_all_iff)
    then have rs: "ready ?s'" using assms by (simp add: ready_def stdGeometry_def)
    have "tableReady (puzzlePadInteraction ?s') ?r'"
      using u(3) by (simp add: tableReady_def)
    from ready_update [OF rs _ _ this] rg(2)
    have "ready (?s'\<lparr>regions := (regions s)[currentRegion s := ?r']\<rparr>)"
      by simp
    then have "ready (s\<lparr>regions := (regions s)[currentRegion s := ?r'],
                       interactionPending := (if held then True else False),
                       puzzlePadInteraction := tbl',
                       effects := effects s @ fx\<rparr>)"
      by (simp add: ready_def stdGeometry_def)
    then show ?thesis using rg(1) Some u(1) by (simp add: updatePuzzle_def Let_def)
  qed
qed

lemma checkRegionSwitch_ready:
  assumes "ready s"
  shows "\<exists>s4. checkRegionSwitch s = Some s4 \<and> ready s4 \<and> inBounds s4"
proof -
  from assms have "stdGeometry s" by (simp add: ready_def)
  from checkRegionSwitch_std [OF this] obtain s4 where
    "checkRegionSwitch s = Some s4" "stdGeometry s4" "sameWorld s s4" "inBounds s4" by blast
  moreover from this assms have "ready s4" by (simp add: ready_def sameWorld_def)
  ultimately show ?thesis by blast
qed

lemma checkWinCondition_keeps:
  "ready s \<Longrightarrow> inBounds s \<Longrightarrow> ready (checkWinCondition s) \<and> inBounds (checkWinCondition s)"
  by (auto simp add: checkWinCondition_def Let_def ready_def stdGeometry_def inBounds_def
      regionAt_def)

text \<open>
  C10. From a ready session that is not paused, one pass of the loop body returns for
  any movement, interact signal and frame time, and at its end the player's rectangle
  lies within the pixel bounds of the region that is then current; the session is ready
  again, so the same holds after every later tick.
\<close>

theorem loop_keeps_player_in_region:
  assumes "ready s" and "\<not> paused s"
  shows "\<exists>s'. loop dx dy held dt s = Some s' \<and> inBounds s' \<and> ready s'"
proof -
  obtain s1 where 1: "movePlayer dx dy s = Some s1" "ready s1"
    using movePlayer_ready [OF assms(1)] by blast
  have "ready (s1\<lparr>gameTime := gameTime s1 + dt\<rparr>)"
    using 1(2) by (simp add: ready_def stdGeometry_def)
  then obtain s2 where 2: "updateSeeds (s1\<lparr>gameTime := gameTime s1 + dt\<rparr>) = Some s2" "ready s2"
    using updateSeeds_ready by blast
  obtain s3 where 3: "updatePuzzle held s2 = Some s3" "ready s3"
    using updatePuzzle_ready [OF 2(2)] by blast
  obtain s4 where 4: "checkRegionSwitch s3 = Some s4" "ready s4" "inBounds s4"
    using checkRegionSwitch_ready [OF 3(2)] by blast
  have "loop dx dy held dt s = Some (checkWinCondition s4)"
    using assms(2) 1(1) 2(1) 3(1) 4(1) by (simp add: loop_def)
  then show ?thesis using checkWinCondition_keeps [OF 4(2,3)] by simp
qed

theorem loop_keeps_player_in_region_witness:
  "ready generated \<and> \<not> paused generated
   \<and> (\<exists>s'. loop 3 0 False 16 generated = Some s' \<and> inBounds s' \<and> ready s')"
proof -
  have r: "ready generated"
    by (simp add: ready_def stdGeometry_def tableReady_def puzzleReady_def generated_def
        initialState_def tableWith_def)
  have p: "\<not> paused generated"
    by (simp add: generated_def initialState_def)
  from loop_keeps_player_in_region [OF r p, of 3 0 False 16] show ?thesis
    using r p by blast
qed

subsection \<open>Starting a session\<close>

lemma upt5: "[0..<5] = [0, 1, 2, 3, 4]"
  by (simp add: upt_rec)

lemma generateContent_initialState: "generateContent initialState = Some generated"
  by (simp add: generateContent_def initialState_def upt5 emptyRegion_def generated_def
      Let_def createStrictSequencePuzzle_def createCratePuzzle_def createDynamicPlatePuzzle_def
      createTeleporterPuzzle_def newGate_def blocksExit_def TILE_def COLS_def ROWS_def
      gateOfRegion_def region1Pads_def targetsOfRegion2_def tableWith_def xy_def newSeed_def)

text \<open>A row of which one of the three columns is not a string, does not parse, or parses
  to something that is not an array makes \<open>loadGame\<close> return false; the call itself
  always returns.\<close>

lemma loadGame_unparsed_fails:
  "(\<forall>v. seeds_json st \<noteq> Parsed (Some v)) \<or> (\<forall>v. crates_json st \<noteq> Parsed (Some v))
     \<or> (\<forall>v. puzzles_json st \<noteq> Parsed (Some v))
   \<Longrightarrow> fst (loadGame (Row st) s) = False"
  by (auto simp add: loadGame_def restoreComponents_def
      split: field.splits option.splits prod.splits)

text \<open>
  C4. The save row has a \<open>seeds\<close> column that parses to \<open>[[true]]\<close> and a \<open>crates\<close> column
  that parses to \<open>null\<close>. \<open>loadGame\<close> restores the seeds, throws at the crates and returns
  false; \<open>initGame\<close> then resets the region, the position and the time, and nothing else.
  The seed of region 0 stays collected, where a session started with no save has it
  uncollected.
\<close>

theorem failed_load_leaves_collected_seed:
  "map_option (\<lambda>s. fst (loadGame (Row brokenSave) s)) (generateContent initialState) = Some False
   \<and> map_option startValues (initGame False (Row brokenSave) initialState)
       = map_option startValues (initGame False NoSave initialState)
   \<and> map_option collectedFlags (initGame False (Row brokenSave) initialState)
       = Some [[True], [False], [False], [False, False], []]
   \<and> map_option collectedFlags (initGame False NoSave initialState)
       = Some [[False], [False], [False], [False, False], []]"
proof -
  have 1: "fst (loadGame (Row brokenSave) generated) = False"
    by (simp add: loadGame_def restoreComponents_def brokenSave_def generated_def)
  have 2: "map_option collectedFlags (initGame False (Row brokenSave) initialState)
             = Some [[True], [False], [False], [False, False], []]"
    unfolding initGame_def generateContent_initialState
    by (simp add: loadGame_def restoreComponents_def brokenSave_def generated_def
        collectedFlags_def syncGates_def upt5 newSeed_def initialState_def)
  have 3: "map_option collectedFlags (initGame False NoSave initialState)
             = Some [[False], [False], [False], [False, False], []]"
    unfolding initGame_def generateContent_initialState
    by (simp add: loadGame_def generated_def collectedFlags_def syncGates_def upt5 newSeed_def
        initialState_def)
  have 4: "map_option startValues (initGame False (Row brokenSave) initialState)
             = Some (0, TILE * 3, TILE * 3, 0)"
    unfolding initGame_def generateContent_initialState
    by (simp add: loadGame_def restoreComponents_def brokenSave_def generated_def
        startValues_def initialState_def)
  have 5: "map_option startValues (initGame False NoSave initialState)
             = Some (0, TILE * 3, TILE * 3, 0)"
    unfolding initGame_def generateContent_initialState
    by (simp add: loadGame_def generated_def startValues_def initialState_def)
  show ?thesis
    unfolding 2 3 4 5 generateContent_initialState using 1 by simp
qed

end
